theory Spec2Isabelle
  imports Complex_Main "HOL-Library.Sublist" "HOL-Library.AList" "HOL-Library.Char_ord"
    "HOL-Library.List_Lexorder" "HOL-Library.Product_Lexorder"
begin

section \<open>Data model of \<^verbatim>\<open>perf/text_runner.py\<close>\<close>

text \<open>
  Durations are Python floats in the source. They are modelled as exact real numbers:
  comparisons against the thresholds of the source are comparisons of reals, and the
  rounding error of binary floating point is not part of the model.
  Python integers are unbounded and are modelled as \<open>int\<close>.
\<close>

datatype exn =
    ValueError string
  | RuntimeError string
  | UnboundLocalError string
  | IndexError
  | StatisticsError
  | IOError string
  | KeyboardInterrupt
  | SystemExit int

datatype stream = Stdout | Stderr

datatype open_mode = TextUtf8 | Binary

datatype fp = FileObj string open_mode | StreamObj stream

text \<open>The \<^verbatim>\<open>argparse.Namespace\<close> that \<^verbatim>\<open>argparser.parse_args()\<close> returns: one field
  per option declared in \<^verbatim>\<open>TextRunner.__init__\<close>.\<close>

record namespace =
  processes :: int
  samples :: int
  warmups :: int
  loops :: int
  verbose :: int
  json :: bool
  json_file :: "string option"
  min_time :: real
  max_time :: real
  raw :: bool
  metadata :: bool
  affinity :: "string option"

text \<open>
  Modelled from the spec: the aggregate result type \<^verbatim>\<open>perf.Benchmark\<close> lives in
  \<^verbatim>\<open>perf/__init__.py\<close>, which is not part of the sources at hand. Section 3 of the
  specification describes it as a name, the warmups, loops and inner-loops numbers, a
  metadata mapping and an ordered sequence of runs, each run an ordered sequence of
  samples whose first \<open>warmups\<close> entries are warmup samples.
\<close>

record benchmark =
  bench_name :: "string option"
  bench_warmups :: int
  bench_loops :: int
  bench_inner_loops :: "int option"
  bench_metadata :: "(string \<times> string) list"
  bench_runs :: "real list list"

text \<open>What the program does to the outside, in the order it does it.\<close>

datatype event =
    Print stream string
  | Write stream string
  | Flush fp
  | Close fp
  | JsonDumpInto fp benchmark
  | Popen "string list"
  | Kill
  | Wait
  | SchedSetaffinity "int list"
  | PsutilCpuAffinity "int list"

text \<open>
  The state the program runs in: the log of its effects, the state of the timed
  operation (the clock and whatever the benchmarked code touches), and the number of
  child processes started so far.
\<close>

record 's world =
  log :: "event list"
  timer :: 's
  nspawn :: nat

definition emit :: "event list \<Rightarrow> 's world \<Rightarrow> 's world" where
  "emit es w = w\<lparr>log := log w @ es\<rparr>"

text \<open>\<^verbatim>\<open>print(text, file=stream)\<close>\<close>

definition print :: "stream \<Rightarrow> string \<Rightarrow> 's world \<Rightarrow> 's world" where
  "print f text w = emit [Print f text] w"

text \<open>A child process either runs to completion, with an exit status and its captured
  standard output and standard error, or the wait for it is interrupted.\<close>

datatype child_outcome = Exited int string string | Interrupted

text \<open>
  The collaborators that the source calls and that are outside \<^verbatim>\<open>text_runner.py\<close>:
  formatting helpers of the \<^verbatim>\<open>perf\<close> package, the JSON codec of the result type, the
  platform probes of the affinity code, the command-line parser and the operating
  system's answer to each started child. They are parameters of the model.
\<close>

record env =
  PY3 :: bool
  format_number :: "int \<Rightarrow> string \<Rightarrow> string"
  format_timedelta :: "real \<Rightarrow> string"
  format_sample :: "benchmark \<Rightarrow> real \<Rightarrow> string"
  format_samples :: "benchmark \<Rightarrow> real list \<Rightarrow> string list"
  bench_format :: "benchmark \<Rightarrow> int \<Rightarrow> string"
  fmt_f0 :: "real \<Rightarrow> string"
  fmt_f1 :: "real \<Rightarrow> string"
  has_sched_setaffinity :: bool
  psutil_imported :: bool
  proc_has_cpu_affinity :: bool
  get_isolated_cpus :: "int list option"
  parse_cpu_list :: "string \<Rightarrow> int list"
  format_cpu_list :: "int list \<Rightarrow> string"
  collect_metadata :: "(string \<times> string) list \<Rightarrow> (string \<times> string) list"
  json_load :: "string \<Rightarrow> exn + benchmark"
  get_worker_samples :: "benchmark \<Rightarrow> benchmark \<Rightarrow> exn + real list"
  can_open :: "string \<Rightarrow> bool"
  child :: "nat \<Rightarrow> string list \<Rightarrow> child_outcome"
  monotonic_clock :: "event list \<Rightarrow> real"

text \<open>The timed operation: given a loop count it runs and returns the elapsed time.\<close>

type_synonym 's sample_func = "int \<Rightarrow> 's \<Rightarrow> real \<times> 's"

section \<open>Python helpers\<close>

text \<open>\<^verbatim>\<open>str(n)\<close> for an integer: its decimal digits, with a minus sign when negative.\<close>

fun str_nat :: "nat \<Rightarrow> string" where
  "str_nat n =
     (if n < 10 then [''0123456789'' ! n]
      else str_nat (n div 10) @ [''0123456789'' ! (n mod 10)])"

declare str_nat.simps [simp del]

definition str_int :: "int \<Rightarrow> string" where
  "str_int i = (if i < 0 then ''-'' @ str_nat (nat (- i)) else str_nat (nat i))"

text \<open>\<^verbatim>\<open>sep.join(parts)\<close>\<close>

fun join :: "string \<Rightarrow> string list \<Rightarrow> string" where
  "join sep [] = []"
| "join sep [x] = x"
| "join sep (x # y # ys) = x @ sep @ join sep (y # ys)"

text \<open>The slices \<^verbatim>\<open>xs[:n]\<close> and \<^verbatim>\<open>xs[n:]\<close>; a negative \<open>n\<close> counts from the end.\<close>

definition slice_to :: "'a list \<Rightarrow> int \<Rightarrow> 'a list" where
  "slice_to xs n = (if n < 0 then take (length xs - nat (- n)) xs else take (nat n) xs)"

definition slice_from :: "'a list \<Rightarrow> int \<Rightarrow> 'a list" where
  "slice_from xs n = (if n < 0 then drop (length xs - nat (- n)) xs else drop (nat n) xs)"

text \<open>The truth value of an optional string: \<^verbatim>\<open>None\<close> and the empty string are false.\<close>

definition truthy :: "string option \<Rightarrow> bool" where
  "truthy s = (case s of None \<Rightarrow> False | Some x \<Rightarrow> x \<noteq> [])"

text \<open>\<^verbatim>\<open>statistics.median\<close> and \<^verbatim>\<open>statistics.stdev\<close> of the Python standard library,
  over exact reals.\<close>

definition median :: "real list \<Rightarrow> exn + real" where
  "median data =
     (let data = sort data; n = length data
      in if n = 0 then Inl StatisticsError
         else if n mod 2 = 1 then Inr (data ! (n div 2))
         else (let i = n div 2 in Inr ((data ! (i - 1) + data ! i) / 2)))"

definition mean :: "real list \<Rightarrow> real" where
  "mean data = sum_list data / real (length data)"

definition stdev :: "real list \<Rightarrow> exn + real" where
  "stdev data =
     (let n = length data
      in if n < 2 then Inl StatisticsError
         else (let c = mean data; ss = (\<Sum>x\<leftarrow>data. (x - c)\<^sup>2)
               in Inr (sqrt (ss / real (n - 1)))))"

section \<open>The result type\<close>

text \<open>Modelled from the spec: \<^verbatim>\<open>Benchmark(name, warmups, loops, inner_loops, metadata)\<close> is
  missing from the sources; a new aggregate has no run.\<close>

definition Benchmark ::
  "string option \<Rightarrow> int \<Rightarrow> int \<Rightarrow> int option \<Rightarrow> (string \<times> string) list \<Rightarrow> benchmark" where
  "Benchmark name w l inner md =
     \<lparr>bench_name = name, bench_warmups = w, bench_loops = l, bench_inner_loops = inner,
      bench_metadata = md, bench_runs = []\<rparr>"

text \<open>Modelled from the spec: \<^verbatim>\<open>Benchmark.get_nrun\<close> is missing from the sources; it is the
  number of runs collected so far.\<close>

definition get_nrun :: "benchmark \<Rightarrow> nat" where
  "get_nrun bench = length (bench_runs bench)"

text \<open>Modelled from the spec: \<^verbatim>\<open>Benchmark.get_runs\<close> is missing from the sources; the runs
  in collection order.\<close>

definition get_runs :: "benchmark \<Rightarrow> real list list" where
  "get_runs bench = bench_runs bench"

text \<open>Modelled from the spec: \<^verbatim>\<open>Benchmark.get_samples\<close> is missing from the sources; the
  measurement samples are the samples of every run without its first \<open>warmups\<close>
  entries, which are excluded from every statistic.\<close>

definition get_samples :: "benchmark \<Rightarrow> real list" where
  "get_samples bench =
     concat (map (\<lambda>run. slice_from run (bench_warmups bench)) (bench_runs bench))"

text \<open>Modelled from the spec: \<^verbatim>\<open>Benchmark._get_raw_samples\<close> is missing from the sources; the
  raw samples are all samples of all runs, warmups included.\<close>

definition get_raw_samples :: "benchmark \<Rightarrow> real list" where
  "get_raw_samples bench = concat (bench_runs bench)"

text \<open>Modelled from the spec: \<^verbatim>\<open>Benchmark.median\<close> is missing from the sources; the median
  is computed over the measurement samples.\<close>

definition bench_median :: "benchmark \<Rightarrow> exn + real" where
  "bench_median bench = median (get_samples bench)"

text \<open>Modelled from the spec: \<^verbatim>\<open>Benchmark.add_run\<close> is missing from the sources; the run is
  appended to the ordered sequence of runs.\<close>

definition add_run :: "benchmark \<Rightarrow> real list \<Rightarrow> benchmark" where
  "add_run bench run = bench\<lparr>bench_runs := bench_runs bench @ [run]\<rparr>"

section \<open>Module-level functions\<close>

text \<open>\<^verbatim>\<open>_json_dump(bench, args)\<close>\<close>

definition json_dump ::
  "env \<Rightarrow> benchmark \<Rightarrow> namespace \<Rightarrow> 's world \<Rightarrow> (exn + unit) \<times> 's world" where
  "json_dump E bench A w =
     (if truthy (json_file A) then
        (let name = the (json_file A);
             fp = FileObj name (if PY3 E then TextUtf8 else Binary)
         in if can_open E name
            then (Inr (), emit [JsonDumpInto fp bench, Flush fp, Close fp] w)
            else (Inl (IOError name), w))
      else if json A then
        (Inr (), emit [JsonDumpInto (StreamObj Stdout) bench, Flush (StreamObj Stdout)] w)
      else (Inr (), w))"

text \<open>
  \<^verbatim>\<open>_bench_from_subprocess(args)\<close>. Starting the child is an effect; what the child does is
  the answer of the environment to the command line, for the child started at this
  position. \<^verbatim>\<open>Popen\<close> and the error message both read \<^verbatim>\<open>args[0]\<close>, which an empty command
  line does not have. The bare \<^verbatim>\<open>except:\<close> around \<^verbatim>\<open>communicate()\<close> kills the child, waits
  for it and raises again; the model has the interrupt as the exception it re-raises.
\<close>

definition bench_from_subprocess ::
  "env \<Rightarrow> string list \<Rightarrow> 's world \<Rightarrow> (exn + benchmark) \<times> 's world" where
  "bench_from_subprocess E cmd w =
     (case cmd of
        [] \<Rightarrow> (Inl IndexError, w)
      | program # _ \<Rightarrow>
          (let w1 = emit [Popen cmd] (w\<lparr>nspawn := Suc (nspawn w)\<rparr>)
           in case child E (nspawn w) cmd of
                Interrupted \<Rightarrow> (Inl KeyboardInterrupt, emit [Kill, Wait] w1)
              | Exited returncode out err \<Rightarrow>
                  if returncode \<noteq> 0 then
                    (Inl (RuntimeError
                            (program @ '' failed with exit code '' @ str_int returncode)),
                     emit [Write Stdout out, Flush (StreamObj Stdout),
                           Write Stderr err, Flush (StreamObj Stderr)] w1)
                  else (json_load E out, w1)))"

text \<open>A \<^verbatim>\<open>file=\<close> argument that is \<^verbatim>\<open>None\<close> means \<^verbatim>\<open>sys.stdout\<close>.\<close>

definition file_or_stdout :: "stream option \<Rightarrow> stream" where
  "file_or_stdout file = (case file of None \<Rightarrow> Stdout | Some f \<Rightarrow> f)"

text \<open>\<^verbatim>\<open>_display_run(bench, index, nrun, samples, file)\<close>\<close>

definition display_run ::
  "env \<Rightarrow> benchmark \<Rightarrow> int \<Rightarrow> int \<Rightarrow> real list \<Rightarrow> stream option \<Rightarrow> 's world \<Rightarrow> 's world" where
  "display_run E bench index nrun run file w =
     (let ws = slice_to run (bench_warmups bench);
          ms = slice_from run (bench_warmups bench);
          text = join '', '' (format_samples E bench ms);
          text = ''raw samples ('' @ str_int (int (length ms)) @ ''): '' @ text;
          text = (if ws \<noteq> []
                  then ''warmup ('' @ str_int (int (length ws)) @ ''): ''
                       @ join '', '' (format_samples E bench ws) @ ''; '' @ text
                  else text);
          text = ''Run '' @ str_int index @ ''/'' @ str_int nrun @ '': '' @ text
      in print (file_or_stdout file) text w)"

text \<open>
  \<^verbatim>\<open>_warn_if_bench_unstable(bench, verbose, file)\<close>, in its three parts: the guard on the
  number of runs, the check of the dispersion, the check of the shortest raw sample.
\<close>

definition dispersion_check ::
  "env \<Rightarrow> benchmark \<Rightarrow> int \<Rightarrow> stream option \<Rightarrow> 's world \<Rightarrow> (exn + unit) \<times> 's world" where
  "dispersion_check E bench verbosity file w =
     (let f = file_or_stdout file in
      case bench_median bench of
        Inl e \<Rightarrow> (Inl e, w)
      | Inr med \<Rightarrow>
          if med \<noteq> 0 \<and> length (get_samples bench) > 1 then
            (case stdev (get_samples bench) of
               Inl e \<Rightarrow> (Inl e, w)
             | Inr sd \<Rightarrow>
                 (let k = sd / med in
                  if k > 0.10 then
                    (let w1 =
                       (if k > 0.20
                        then print f (''ERROR: the benchmark is very unstable, the standard ''
                               @ ''deviation is very high (stdev/median: ''
                               @ fmt_f0 E (k * 100) @ ''%)!'') w
                        else print f (''WARNING: the benchmark seems unstable, the standard ''
                               @ ''deviation is high (stdev/median: ''
                               @ fmt_f0 E (k * 100) @ ''%)'') w);
                         w2 = print f (''Try to rerun the benchmark with more runs, samples ''
                               @ ''and/or loops'') w1
                     in (Inr (), print f [] w2))
                  else if verbosity > 1 then
                    (Inr (), print f (''Standard deviation / median: ''
                               @ fmt_f0 E (k * 100) @ ''%'') w)
                  else (Inr (), w)))
          else (Inr (), w))"

definition shortest_check ::
  "env \<Rightarrow> benchmark \<Rightarrow> int \<Rightarrow> stream option \<Rightarrow> 's world \<Rightarrow> (exn + unit) \<times> 's world" where
  "shortest_check E bench verbosity file w =
     (let f = file_or_stdout file in
      if get_raw_samples bench = []
      then (Inl (ValueError ''min() arg is an empty sequence''), w)
      else
        (let shortest = Min (set (get_raw_samples bench));
             text = format_sample E bench shortest
         in if shortest < 1 / 10 ^ 3 then
              (let w1 =
                 (if shortest < 1 / 10 ^ 6
                  then print Stdout (''ERROR: the benchmark may be very unstable, ''
                         @ ''the shortest raw sample only took '' @ text) w
                  else print Stdout (''WARNING: the benchmark may be unstable, ''
                         @ ''the shortest raw sample only took '' @ text) w);
                   w2 = print f (''Try to rerun the benchmark with more loops ''
                         @ ''or increase --min-time'') w1
               in (Inr (), print f [] w2))
            else if verbosity > 1 then
              (Inr (), print f [] (print f (''Shortest raw sample: '' @ text) w))
            else (Inr (), w)))"

definition warn_if_bench_unstable ::
  "env \<Rightarrow> benchmark \<Rightarrow> int \<Rightarrow> stream option \<Rightarrow> 's world \<Rightarrow> (exn + unit) \<times> 's world" where
  "warn_if_bench_unstable E bench verbosity file w =
     (if get_nrun bench = 0 then (Inl (ValueError ''benchmark has no run''), w)
      else
        (case dispersion_check E bench verbosity file w of
           (Inl e, w1) \<Rightarrow> (Inl e, w1)
         | (Inr _, w1) \<Rightarrow> shortest_check E bench verbosity file w1))"

text \<open>\<^verbatim>\<open>_display_metadata(metadata, file, header)\<close>\<close>

definition display_metadata ::
  "(string \<times> string) list \<Rightarrow> stream option \<Rightarrow> string \<Rightarrow> 's world \<Rightarrow> 's world" where
  "display_metadata md file header w =
     (if md = [] then w
      else emit (map (\<lambda>(key, v). Print (file_or_stdout file) (''- '' @ key @ '': '' @ v))
                   (sort md))
             (print (file_or_stdout file) header w))"

text \<open>\<^verbatim>\<open>_display_benchmark(bench, verbose, file, check_unstable, metadata, runs)\<close>\<close>

definition display_runs ::
  "env \<Rightarrow> benchmark \<Rightarrow> stream option \<Rightarrow> 's world \<Rightarrow> 's world" where
  "display_runs E bench file w =
     (let runs = get_runs bench; nrun = int (length runs)
      in print (file_or_stdout file) []
           (fold (\<lambda>(index, run). display_run E bench index nrun run file)
              (zip (map int [1..<Suc (length runs)]) runs) w))"

definition display_benchmark ::
  "env \<Rightarrow> benchmark \<Rightarrow> int \<Rightarrow> stream option \<Rightarrow> bool \<Rightarrow> bool \<Rightarrow> bool \<Rightarrow> 's world
     \<Rightarrow> (exn + unit) \<times> 's world" where
  "display_benchmark E bench verbosity file check_unstable show_metadata show_runs w =
     (let w1 = (if show_runs then display_runs E bench file w else w);
          w2 = (if show_metadata
                then print (file_or_stdout file) []
                       (display_metadata (bench_metadata bench) file ''Metadata:'' w1)
                else w1);
          summary = (\<lambda>w. print (file_or_stdout file)
                       (''Median +- std dev: '' @ bench_format E bench verbosity) w)
      in if check_unstable then
           (case warn_if_bench_unstable E bench verbosity file w2 of
              (Inl e, w3) \<Rightarrow> (Inl e, w3)
            | (Inr _, w3) \<Rightarrow> (Inr (), summary w3))
         else (Inr (), summary w2))"

section \<open>TextRunner\<close>


text \<open>\<^verbatim>\<open>TextRunner._stream\<close>\<close>

definition stream_of :: "namespace \<Rightarrow> stream" where
  "stream_of A = (if json A then Stderr else Stdout)"

text \<open>
  \<^verbatim>\<open>TextRunner._calibrate_sample_func\<close>. The \<^verbatim>\<open>for index in range(0, 10)\<close> loop is the
  recursion on \<open>index\<close>; when the range is exhausted \<open>loops\<close> keeps the value of the
  last iteration.
\<close>

function calibrate_from ::
  "env \<Rightarrow> namespace \<Rightarrow> 's sample_func \<Rightarrow> nat \<Rightarrow> 's world \<Rightarrow> int \<times> 's world" where
  "calibrate_from E A sample_func index w =
     (let min_dt = min_time A * 0.90;
          max_dt = max_time A;
          loops = 10 ^ index;
          (dt, t) = sample_func loops (timer w);
          w1 = w\<lparr>timer := t\<rparr>;
          w2 = (if verbose A > 1
                then print (stream_of A)
                       (''calibration: '' @ format_number E loops ''loop'' @ '': ''
                          @ format_timedelta E dt) w1
                else w1)
      in if dt \<ge> max_dt then (10 ^ nat (max (int index - 1) 0), w2)
         else if dt \<ge> min_dt then (loops, w2)
         else if index + 1 < 10 then calibrate_from E A sample_func (index + 1) w2
         else (loops, w2))"
  by pat_completeness auto
termination
  by (relation "measure (\<lambda>(E, A, f, index, w). 10 - index)") auto

declare calibrate_from.simps [simp del]

definition calibrate_sample_func ::
  "env \<Rightarrow> namespace \<Rightarrow> 's sample_func \<Rightarrow> 's world \<Rightarrow> int \<times> 's world" where
  "calibrate_sample_func E A sample_func w =
     (let (loops, w1) = calibrate_from E A sample_func 0 w;
          w2 = (if verbose A > 1
                then print (stream_of A)
                       (''calibration: use '' @ format_number E loops ''loop'') w1
                else w1)
      in (loops, w2))"

text \<open>
  The fields of a \<^verbatim>\<open>TextRunner\<close> set by \<^verbatim>\<open>__init__\<close>. The command-line parser it builds
  is a parameter: it answers a list of arguments (or \<^verbatim>\<open>None\<close> for \<^verbatim>\<open>sys.argv\<close>) with a
  namespace or with the exception of a usage error. The callback
  \<^verbatim>\<open>prepare_subprocess_args\<close> edits the command line of a worker.
\<close>

record runner =
  self_name :: "string option"
  self_metadata :: "(string \<times> string) list"
  self_args :: "namespace option"
  self_prepare_subprocess_args :: "(string list \<Rightarrow> string list) option"
  self_program_args :: "string list"
  self_inner_loops :: "int option"
  self_argparser :: "string list option \<Rightarrow> exn + namespace"

text \<open>\<^verbatim>\<open>TextRunner.parse_args\<close>\<close>

definition parse_args :: "runner \<Rightarrow> string list option \<Rightarrow> (exn + unit) \<times> runner" where
  "parse_args self argv =
     (if self_args self \<noteq> None then (Inr (), self)
      else (case self_argparser self argv of
              Inl e \<Rightarrow> (Inl e, self)
            | Inr parsed \<Rightarrow> (Inr (), self\<lparr>self_args := Some parsed\<rparr>)))"

text \<open>\<^verbatim>\<open>TextRunner._range\<close>: the values the generator yields, in order.\<close>

definition range_of :: "namespace \<Rightarrow> (bool \<times> int) list" where
  "range_of A =
     map (\<lambda>warmup. (True, 1 + int warmup)) [0..<nat (warmups A)]
     @ map (\<lambda>run. (False, 1 + int run)) [0..<nat (samples A)]"

text \<open>
  \<^verbatim>\<open>TextRunner._cpu_affinity\<close>. The local variable \<^verbatim>\<open>stream\<close> is assigned only on the path
  without an explicit CPU list, so the last part of the method receives it as an
  optional value; reading it while unassigned raises \<^verbatim>\<open>UnboundLocalError\<close>.
\<close>

definition psutil_has_cpu_affinity :: "env \<Rightarrow> bool" where
  "psutil_has_cpu_affinity E = (if psutil_imported E then proc_has_cpu_affinity E else False)"

definition pin_cpus ::
  "env \<Rightarrow> int list \<Rightarrow> stream option \<Rightarrow> 's world \<Rightarrow> (exn + unit) \<times> 's world" where
  "pin_cpus E cpus stream w =
     (if has_sched_setaffinity E then (Inr (), emit [SchedSetaffinity cpus] w)
      else if psutil_has_cpu_affinity E then (Inr (), emit [PsutilCpuAffinity cpus] w)
      else
        (let w1 = print Stderr ''ERROR: CPU affinity not available.'' w
         in case stream of
              None \<Rightarrow> (Inl (UnboundLocalError ''stream''), w1)
            | Some f \<Rightarrow>
                (Inl (SystemExit 1),
                 print f ''Use Python 3.3 or newer, or install psutil dependency'' w1)))"

definition cpu_affinity ::
  "env \<Rightarrow> namespace \<Rightarrow> 's world \<Rightarrow> (exn + unit) \<times> namespace \<times> 's world" where
  "cpu_affinity E A w =
     (if \<not> truthy (affinity A) then
        (let stream = stream_of A in
         case get_isolated_cpus E of
           None \<Rightarrow> (Inr (), A, w)
         | Some cpus \<Rightarrow>
             if cpus = [] then (Inr (), A, w)
             else if \<not> has_sched_setaffinity E \<and> \<not> psutil_has_cpu_affinity E then
               (Inr (), A,
                print stream ''Use Python 3.3 or newer, or install psutil dependency''
                  (print stream (''WARNING: unable to pin worker processes to ''
                     @ ''isolated CPUs, CPU affinity not available'') w))
             else
               (let w1 = (if verbose A \<noteq> 0
                          then print stream (''Pin process to isolated CPUs: ''
                                 @ format_cpu_list E cpus) w
                          else w);
                    A1 = A\<lparr>affinity := Some (format_cpu_list E cpus)\<rparr>
                in case pin_cpus E cpus (Some stream) w1 of (r, w2) \<Rightarrow> (r, A1, w2)))
      else
        (let cpus = parse_cpu_list E (the (affinity A));
             w1 = (if verbose A \<noteq> 0
                   then print (stream_of A) (''Pin process to CPUs: ''
                          @ format_cpu_list E cpus) w
                   else w)
         in case pin_cpus E cpus None w1 of (r, w2) \<Rightarrow> (r, A, w2)))"

text \<open>
  \<^verbatim>\<open>round(sample, 9)\<close>. Python 3 rounds a tie to the even neighbour, Python 2 away
  from zero.
\<close>

definition round_half_even :: "real \<Rightarrow> int" where
  "round_half_even y =
     (let f = \<lfloor>y\<rfloor>; d = y - of_int f
      in if d < 1 / 2 then f else if d > 1 / 2 then f + 1
         else if even f then f else f + 1)"

definition round_half_away :: "real \<Rightarrow> int" where
  "round_half_away y = (if y \<ge> 0 then \<lfloor>y + 1 / 2\<rfloor> else \<lceil>y - 1 / 2\<rceil>)"

definition round9 :: "env \<Rightarrow> real \<Rightarrow> real" where
  "round9 E x =
     of_int ((if PY3 E then round_half_even else round_half_away) (x * 10 ^ 9)) / 10 ^ 9"

text \<open>\<^verbatim>\<open>TextRunner._display_result\<close>\<close>

definition display_result ::
  "env \<Rightarrow> namespace \<Rightarrow> benchmark \<Rightarrow> bool \<Rightarrow> 's world \<Rightarrow> (exn + unit) \<times> 's world" where
  "display_result E A bench check_unstable w =
     (let stream = stream_of A in
      case display_benchmark E bench (verbose A) (Some stream) check_unstable
             (metadata A) False w of
        (Inl e, w1) \<Rightarrow> (Inl e, w1)
      | (Inr _, w1) \<Rightarrow> json_dump E bench A (emit [Flush (StreamObj stream)] w1))"

text \<open>
  \<^verbatim>\<open>TextRunner._worker\<close>. The aggregate is an object that the method changes in place and
  returns; the model returns its state next to the outcome.
\<close>

fun worker_loop ::
  "env \<Rightarrow> namespace \<Rightarrow> benchmark \<Rightarrow> 's sample_func \<Rightarrow> (bool \<times> int) list \<Rightarrow> real list
     \<Rightarrow> 's world \<Rightarrow> real list \<times> 's world" where
  "worker_loop E A bench sample_func [] run w = (run, w)"
| "worker_loop E A bench sample_func ((is_warmup, index) # rest) run w =
     (let (sample, t) = sample_func (bench_loops bench) (timer w);
          sample = round9 E sample;
          run = run @ [sample];
          w1 = w\<lparr>timer := t\<rparr>;
          w2 = (if verbose A \<noteq> 0 then
                  (let text = format_sample E bench sample;
                       text = (if is_warmup
                               then ''Warmup '' @ str_int index @ '': '' @ text
                               else ''Raw sample '' @ str_int index @ '': '' @ text)
                   in print (stream_of A) text w1)
                else w1)
      in worker_loop E A bench sample_func rest run w2)"

definition worker ::
  "env \<Rightarrow> namespace \<Rightarrow> benchmark \<Rightarrow> 's sample_func \<Rightarrow> 's world
     \<Rightarrow> (exn + unit) \<times> benchmark \<times> 's world" where
  "worker E A bench sample_func w =
     (let (run, w1) = worker_loop E A bench sample_func (range_of A) [] w;
          bench1 = add_run bench run
      in case display_result E A bench1 False w1 of (r, w2) \<Rightarrow> (r, bench1, w2))"

text \<open>\<^verbatim>\<open>TextRunner._spawn_worker\<close>\<close>

definition worker_command :: "runner \<Rightarrow> namespace \<Rightarrow> string list" where
  "worker_command self A =
     self_program_args self
     @ [''--raw'', ''--json'',
        ''--samples'', str_int (samples A),
        ''--warmups'', str_int (warmups A),
        ''--loops'', str_int (loops A)]
     @ (if verbose A \<noteq> 0 then [''-'' @ replicate (nat (verbose A)) CHR ''v''] else [])
     @ (if truthy (affinity A) then [''--affinity='' @ the (affinity A)] else [])"

definition spawn_worker ::
  "env \<Rightarrow> runner \<Rightarrow> namespace \<Rightarrow> 's world \<Rightarrow> (exn + benchmark) \<times> 's world" where
  "spawn_worker E self A w =
     (let cmd = worker_command self A;
          cmd = (case self_prepare_subprocess_args self of
                   None \<Rightarrow> cmd
                 | Some prepare \<Rightarrow> prepare cmd)
      in bench_from_subprocess E cmd w)"

text \<open>\<^verbatim>\<open>TextRunner._spawn_workers\<close>: the loop over the processes, then the report.\<close>

fun spawn_loop ::
  "env \<Rightarrow> runner \<Rightarrow> namespace \<Rightarrow> nat list \<Rightarrow> benchmark \<Rightarrow> 's world
     \<Rightarrow> (exn + unit) \<times> benchmark \<times> 's world" where
  "spawn_loop E self A [] bench w = (Inr (), bench, w)"
| "spawn_loop E self A (process # rest) bench w =
     (case spawn_worker E self A w of
        (Inl e, w1) \<Rightarrow> (Inl e, bench, w1)
      | (Inr run_bench, w1) \<Rightarrow>
          (case get_worker_samples E bench run_bench of
             Inl e \<Rightarrow> (Inl e, bench, w1)
           | Inr run \<Rightarrow>
               (let bench1 = add_run bench run;
                    w2 = (if verbose A > 1
                          then display_run E bench1 (1 + int process) (processes A) run
                                 (Some (stream_of A)) w1
                          else emit [Write (stream_of A) ''.'',
                                     Flush (StreamObj (stream_of A))] w1)
                in spawn_loop E self A rest bench1 w2)))"

definition duration_text :: "env \<Rightarrow> real \<Rightarrow> string" where
  "duration_text E duration =
     (let mins = of_int \<lfloor>duration / 60\<rfloor>; secs = duration - 60 * mins
      in if mins \<noteq> 0 then fmt_f0 E mins @ '' min '' @ fmt_f0 E secs @ '' sec''
         else fmt_f1 E secs @ '' sec'')"

definition spawn_workers ::
  "env \<Rightarrow> runner \<Rightarrow> namespace \<Rightarrow> benchmark \<Rightarrow> real \<Rightarrow> 's world
     \<Rightarrow> (exn + unit) \<times> benchmark \<times> 's world" where
  "spawn_workers E self A bench start_time w =
     (case spawn_loop E self A [0..<nat (processes A)] bench w of
        (Inl e, bench1, w1) \<Rightarrow> (Inl e, bench1, w1)
      | (Inr _, bench1, w1) \<Rightarrow>
          (let w2 = (if verbose A \<le> 1 then print (stream_of A) [] w1 else w1);
               duration = monotonic_clock E (log w2) - start_time;
               bench2 = bench1\<lparr>bench_metadata :=
                          AList.update ''duration'' (duration_text E duration)
                            (bench_metadata bench1)\<rparr>
           in case display_result E A bench2 True w2 of (r, w3) \<Rightarrow> (r, bench2, w3)))"

text \<open>
  \<^verbatim>\<open>TextRunner._main\<close>. An exception leaves no aggregate behind: the object is local to
  the method.
\<close>

definition main ::
  "env \<Rightarrow> runner \<Rightarrow> 's sample_func \<Rightarrow> 's world \<Rightarrow> (exn + benchmark) \<times> runner \<times> 's world" where
  "main E self sample_func w =
     (let start_time = monotonic_clock E (log w) in
      case parse_args self None of
        (Inl e, self1) \<Rightarrow> (Inl e, self1, w)
      | (Inr _, self1) \<Rightarrow>
          (case cpu_affinity E (the (self_args self1)) w of
             (Inl e, A1, w1) \<Rightarrow> (Inl e, self1\<lparr>self_args := Some A1\<rparr>, w1)
           | (Inr _, A1, w1) \<Rightarrow>
               (let (A2, w2) =
                      (if loops A1 = 0
                       then (case calibrate_sample_func E A1 sample_func w1 of
                               (n, w2) \<Rightarrow> (A1\<lparr>loops := n\<rparr>, w2))
                       else (A1, w1));
                    self2 = self1\<lparr>self_args := Some A2\<rparr>;
                    bench = Benchmark (self_name self2) (warmups A2) (loops A2)
                              (self_inner_loops self2) (self_metadata self2);
                    bench = (if \<not> raw A2 \<or> metadata A2
                             then bench\<lparr>bench_metadata :=
                                    collect_metadata E (bench_metadata bench)\<rparr>
                             else bench)
                in case (if \<not> raw A2
                         then spawn_workers E self2 A2 bench start_time w2
                         else worker E A2 bench sample_func w2) of
                     (Inl KeyboardInterrupt, _, w3) \<Rightarrow>
                       (Inl (SystemExit 1), self2, print Stderr ''Interrupted: exit'' w3)
                   | (Inl e, _, w3) \<Rightarrow> (Inl e, self2, w3)
                   | (Inr _, bench1, w3) \<Rightarrow> (Inr bench1, self2, w3))))"

section \<open>Definitions used to state the properties\<close>

text \<open>The defaults of \<^verbatim>\<open>TextRunner.__init__\<close> and of the options it declares.\<close>

definition default_namespace :: namespace where
  "default_namespace =
     \<lparr>processes = 25, samples = 3, warmups = 1, loops = 0, verbose = 0, json = False,
      json_file = None, min_time = 0.1, max_time = 1.0, raw = False, metadata = False,
      affinity = None\<rparr>"

text \<open>
  An environment for concrete runs: Python 3 on a platform without any way to pin
  CPUs and without isolated CPUs, placeholder formatters, every file writable, every
  child exiting with status 0 and an aggregate of one run of two samples on its output.
\<close>

definition child_bench :: benchmark where
  "child_bench = add_run (Benchmark None 1 1000 None []) [2 / 10, 1 / 10]"

definition test_env :: env where
  "test_env =
     \<lparr>PY3 = True,
      format_number = (\<lambda>n unit. str_int n @ '' '' @ unit),
      format_timedelta = (\<lambda>_. ''dt''),
      format_sample = (\<lambda>_ _. ''sample''),
      format_samples = (\<lambda>_ xs. map (\<lambda>_. ''sample'') xs),
      bench_format = (\<lambda>_ _. ''median''),
      fmt_f0 = (\<lambda>_. ''f0''),
      fmt_f1 = (\<lambda>_. ''f1''),
      has_sched_setaffinity = False,
      psutil_imported = False,
      proc_has_cpu_affinity = False,
      get_isolated_cpus = None,
      parse_cpu_list = (\<lambda>_. [0]),
      format_cpu_list = (\<lambda>_. ''0''),
      collect_metadata = (\<lambda>md. md),
      json_load = (\<lambda>_. Inr child_bench),
      get_worker_samples =
        (\<lambda>_ run_bench. case bench_runs run_bench of
                          [run] \<Rightarrow> Inr run
                        | _ \<Rightarrow> Inl (ValueError ''not one run'')),
      can_open = (\<lambda>_. True),
      child = (\<lambda>_ _. Exited 0 [] []),
      monotonic_clock = (\<lambda>_. 0)\<rparr>"

text \<open>An initial state whose timed operation keeps the list of the loop counts it was
  called with.\<close>

definition world0 :: "int list world" where
  "world0 = \<lparr>log = [], timer = [], nspawn = 0\<rparr>"

text \<open>The timed operation of the calibration property: \<open>loops \<times> k\<close> seconds for \<open>loops\<close>
  loops. It records each call.\<close>

definition linear_op :: "real \<Rightarrow> int list sample_func" where
  "linear_op k n calls = (real_of_int n * k, calls @ [n])"



text \<open>What a call has added to the log.\<close>

definition printed :: "'s world \<Rightarrow> 's world \<Rightarrow> event list" where
  "printed w w' = drop (length (log w)) (log w')"

text \<open>The events that put data on standard output.\<close>

fun to_stdout :: "event \<Rightarrow> bool" where
  "to_stdout (Print f _) = (f = Stdout)"
| "to_stdout (Write f _) = (f = Stdout)"
| "to_stdout (JsonDumpInto target _) = (target = StreamObj Stdout)"
| "to_stdout _ = False"

text \<open>The events that serialise an aggregate, whatever the destination.\<close>

fun is_json_dump :: "event \<Rightarrow> bool" where
  "is_json_dump (JsonDumpInto _ _) = True"
| "is_json_dump _ = False"

text \<open>
  The stability verdicts of the specification, read off the printed lines: each check
  announces an error or a warning by a line with a fixed beginning.
\<close>

datatype verdict = Stable | Warn | Error

fun is_line :: "string \<Rightarrow> event \<Rightarrow> bool" where
  "is_line start (Print _ text) = prefix start text"
| "is_line start _ = False"


definition duration_verdict :: "event list \<Rightarrow> verdict" where
  "duration_verdict es =
     (if list_ex (is_line ''ERROR: the benchmark may be very unstable'') es then Error
      else if list_ex (is_line ''WARNING: the benchmark may be unstable'') es then Warn
      else Stable)"

text \<open>The stability ratio: standard deviation over median of the measurement samples.\<close>

definition stability_ratio :: "benchmark \<Rightarrow> real" where
  "stability_ratio bench =
     (case (stdev (get_samples bench), bench_median bench) of
        (Inr sd, Inr med) \<Rightarrow> sd / med
      | _ \<Rightarrow> 0)"

text \<open>A runner as \<^verbatim>\<open>TextRunner()\<close> builds it, with a parser that answers with the
  defaults, and a parser that rejects every command line.\<close>

definition test_runner :: runner where
  "test_runner =
     \<lparr>self_name = None, self_metadata = [], self_args = None,
      self_prepare_subprocess_args = None,
      self_program_args = [''python'', ''bench.py''],
      self_inner_loops = None,
      self_argparser = (\<lambda>_. Inr default_namespace)\<rparr>"

definition usage_error :: "string list option \<Rightarrow> exn + namespace" where
  "usage_error argv = Inl (SystemExit 2)"


definition short_warmup_bench :: benchmark where
  "short_warmup_bench =
     add_run (Benchmark None 1 1000 None []) [5 / 10 ^ 7, 5 / 10 ^ 3, 5 / 10 ^ 3]"


text \<open>
  The durations returned by \<open>m\<close> calls of the timed operation with \<open>n\<close> loops, made one
  after the other from the state \<open>s\<close>, and the state after the last call.
\<close>

fun run_timed :: "'s sample_func \<Rightarrow> int \<Rightarrow> nat \<Rightarrow> 's \<Rightarrow> real list \<times> 's" where
  "run_timed f n 0 s = ([], s)"
| "run_timed f n (Suc m) s =
     (case f n s of (d, s1) \<Rightarrow> (case run_timed f n m s1 of (ds, s2) \<Rightarrow> (d # ds, s2)))"

text \<open>The command line that \<^verbatim>\<open>_spawn_worker\<close> hands to the child: built from the
  arguments, then edited by the callback when there is one.\<close>

definition final_command :: "runner \<Rightarrow> namespace \<Rightarrow> string list" where
  "final_command self A =
     (case self_prepare_subprocess_args self of
        None \<Rightarrow> worker_command self A
      | Some prepare \<Rightarrow> prepare (worker_command self A))"

text \<open>
  The child started at position \<open>idx\<close> with the command \<open>cmd\<close> delivered the run \<open>run\<close> to
  the aggregate \<open>bench\<close>: it exited with status 0 and its output parsed to a result whose
  worker samples are \<open>run\<close>.
\<close>

definition delivered :: "env \<Rightarrow> string list \<Rightarrow> nat \<Rightarrow> benchmark \<Rightarrow> real list \<Rightarrow> bool" where
  "delivered E cmd idx bench run =
     (case child E idx cmd of
        Interrupted \<Rightarrow> False
      | Exited returncode out err \<Rightarrow>
          returncode = 0
          \<and> (case json_load E out of
                Inl _ \<Rightarrow> False
              | Inr run_bench \<Rightarrow> get_worker_samples E bench run_bench = Inr run))"

text \<open>A runner whose command line asks for two worker processes.\<close>

definition two_process_namespace :: namespace where
  "two_process_namespace = default_namespace\<lparr>processes := 2\<rparr>"

definition two_process_runner :: runner where
  "two_process_runner = test_runner\<lparr>self_argparser := (\<lambda>_. Inr two_process_namespace)\<rparr>"

text \<open>An environment in which the second child exits with status 2, with some text on
  its standard output and standard error.\<close>

definition failing_env :: env where
  "failing_env =
     test_env\<lparr>child := (\<lambda>idx _. if idx = 1 then Exited 2 ''out'' ''err'' else Exited 0 [] [])\<rparr>"

text \<open>
  The exit status of the Python interpreter for a script that lets the outcome of the
  runner reach its top level: a normal end gives 0, \<^verbatim>\<open>sys.exit(n)\<close> gives \<open>n\<close>, and any
  other exception, which nothing has caught, is reported with a traceback and gives 1.
\<close>

definition exit_status :: "exn + 'a \<Rightarrow> int" where
  "exit_status outcome =
     (case outcome of
        Inr _ \<Rightarrow> 0
      | Inl (SystemExit n) \<Rightarrow> n
      | Inl _ \<Rightarrow> 1)"

text \<open>
  A command line with \<^verbatim>\<open>--affinity=0\<close> and a runner that parses it; an environment in
  which the CPUs 2 and 3 are isolated and nothing can pin a process.
\<close>

definition affinity_namespace :: namespace where
  "affinity_namespace = default_namespace\<lparr>affinity := Some ''0''\<rparr>"

definition affinity_runner :: runner where
  "affinity_runner = test_runner\<lparr>self_argparser := (\<lambda>_. Inr affinity_namespace)\<rparr>"

definition isolated_env :: env where
  "isolated_env = test_env\<lparr>get_isolated_cpus := Some [2, 3]\<rparr>"

section \<open>Effects of printing\<close>

lemma timer_print [simp]: "timer (print f text w) = timer w"
  by (simp add: print_def emit_def)

lemma log_emit [simp]: "log (emit es w) = log w @ es"
  by (simp add: emit_def)

lemma log_print [simp]: "log (print f text w) = log w @ [Print f text]"
  by (simp add: print_def)

lemma timer_emit [simp]: "timer (emit es w) = timer w"
  by (simp add: emit_def)

lemma nspawn_emit [simp]: "nspawn (emit es w) = nspawn w"
  by (simp add: emit_def)

lemma nspawn_print [simp]: "nspawn (print f text w) = nspawn w"
  by (simp add: print_def)

lemma printed_append [simp]: "log w' = log w @ es \<Longrightarrow> printed w w' = es"
  by (simp add: printed_def)

section \<open>Calibration on a linear timed operation\<close>

lemma nat_max_pred: "nat (max (int index - 1) 0) = index - 1"
  by (cases index) simp_all

text \<open>One iteration of the calibration loop when the timed operation is linear.\<close>

lemma calibrate_from_step:
  "calibrate_from E A (linear_op k) index w =
     (let dt = real_of_int (10 ^ index) * k;
          w1 = w\<lparr>timer := timer w @ [10 ^ index]\<rparr>;
          w2 = (if verbose A > 1
                then print (stream_of A)
                       (''calibration: '' @ format_number E (10 ^ index) ''loop'' @ '': ''
                          @ format_timedelta E dt) w1
                else w1)
      in if dt \<ge> max_time A then (10 ^ (index - 1), w2)
         else if dt \<ge> min_time A * 0.90 then (10 ^ index, w2)
         else if index + 1 < 10 then calibrate_from E A (linear_op k) (index + 1) w2
         else (10 ^ index, w2))"
  by (subst calibrate_from.simps) (simp add: linear_op_def Let_def nat_max_pred)


lemma calibrate_value:
  "fst (calibrate_sample_func E A f w) = fst (calibrate_from E A f 0 w)"
  "timer (snd (calibrate_sample_func E A f w)) = timer (snd (calibrate_from E A f 0 w))"
  by (simp_all add: calibrate_sample_func_def Let_def split: prod.splits)

text \<open>
  The example of the specification: \<open>k = 10\<^sup>-\<^sup>4\<close> with the default window gives 1000
  loops, after the calls on 1, 10, 100 and 1000 loops.
\<close>

lemma calibrate_example:
  "fst (calibrate_sample_func E default_namespace (linear_op (1 / 10000)) w) = 1000"
  by (simp add: calibrate_value calibrate_from_step default_namespace_def Let_def)




section \<open>The guard on the number of runs\<close>

text \<open>
  C8: the stability assessment of an aggregate with zero runs fails with the no-run
  error \<^verbatim>\<open>ValueError("benchmark has no run")\<close> before anything is printed, so no verdict
  is produced; the error is not caught by the report that requested the assessment.
\<close>

theorem no_run_error:
  assumes "get_nrun bench = 0"
  shows "warn_if_bench_unstable E bench verbosity file w =
           (Inl (ValueError ''benchmark has no run''), w)
       \<and> fst (display_benchmark E bench verbosity file True show_metadata show_runs w) =
           Inl (ValueError ''benchmark has no run'')
       \<and> fst (display_result E A bench True w) = Inl (ValueError ''benchmark has no run'')"
  using assms
  by (simp add: warn_if_bench_unstable_def display_benchmark_def display_result_def Let_def)

theorem no_run_error_witness:
  "get_nrun (Benchmark None 1 1000 None []) = 0
   \<and> warn_if_bench_unstable test_env (Benchmark None 1 1000 None []) 0 None world0 =
       (Inl (ValueError ''benchmark has no run''), world0)"
  using no_run_error[of "Benchmark None 1 1000 None []" test_env 0 None world0]
  by (simp add: get_nrun_def Benchmark_def)

section \<open>Parsing the command line once\<close>

text \<open>
  C9: the first call of \<^verbatim>\<open>parse_args\<close> parses and stores the arguments; after a call that
  returned, a further call returns at once with the runner unchanged, whatever the
  arguments and whatever the parser would answer: the parser is not consulted again.
\<close>

theorem parse_args_idempotent:
  "(self_args self = None \<and> self_argparser self argv = Inr parsed \<longrightarrow>
      parse_args self argv = (Inr (), self\<lparr>self_args := Some parsed\<rparr>))
   \<and> (fst (parse_args self argv) = Inr () \<longrightarrow>
        self_args (snd (parse_args self argv)) \<noteq> None
        \<and> parse_args ((snd (parse_args self argv))\<lparr>self_argparser := parser\<rparr>) argv' =
            (Inr (), (snd (parse_args self argv))\<lparr>self_argparser := parser\<rparr>))"
  by (auto simp: parse_args_def split: sum.splits)

theorem parse_args_idempotent_witness:
  "self_args test_runner = None
   \<and> self_argparser test_runner None = Inr default_namespace
   \<and> parse_args test_runner None =
       (Inr (), test_runner\<lparr>self_args := Some default_namespace\<rparr>)
   \<and> parse_args (test_runner\<lparr>self_args := Some default_namespace,
                              self_argparser := usage_error\<rparr>) (Some [''--bogus'']) =
       (Inr (), test_runner\<lparr>self_args := Some default_namespace,
                            self_argparser := usage_error\<rparr>)"
proof -
  have unparsed: "self_args test_runner = None"
    by (simp add: test_runner_def)
  have parser: "self_argparser test_runner None = Inr default_namespace"
    by (simp add: test_runner_def)
  note idem = parse_args_idempotent[of test_runner None default_namespace usage_error
                "Some [''--bogus'']"]
  from idem unparsed parser
  have first: "parse_args test_runner None =
                 (Inr (), test_runner\<lparr>self_args := Some default_namespace\<rparr>)"
    by blast
  from idem first
  have again: "parse_args (test_runner\<lparr>self_args := Some default_namespace,
                                        self_argparser := usage_error\<rparr>)
                 (Some [''--bogus'']) =
               (Inr (), test_runner\<lparr>self_args := Some default_namespace,
                                    self_argparser := usage_error\<rparr>)"
    by simp
  show ?thesis
    using unparsed parser first again by simp
qed

section \<open>Where the JSON goes\<close>

text \<open>
  C10: when both a file name (\<^verbatim>\<open>--json-file\<close>, a non-empty name) and \<^verbatim>\<open>--json\<close> are given,
  the JSON-dump step serialises the aggregate into the named file only (or raises when
  the file cannot be opened) and puts nothing on standard output; when neither is
  given it does nothing at all.
\<close>

theorem json_dump_destination:
  "(truthy (json_file A) \<and> json A \<longrightarrow>
      json_dump E bench A w =
        (let name = the (json_file A);
             target = FileObj name (if PY3 E then TextUtf8 else Binary)
         in if can_open E name
            then (Inr (), emit [JsonDumpInto target bench, Flush target, Close target] w)
            else (Inl (IOError name), w))
      \<and> filter to_stdout (printed w (snd (json_dump E bench A w))) = [])
   \<and> (\<not> truthy (json_file A) \<and> \<not> json A \<longrightarrow> json_dump E bench A w = (Inr (), w))"
  by (simp add: json_dump_def Let_def)

theorem json_dump_destination_witness:
  "truthy (json_file (default_namespace\<lparr>json := True, json_file := Some ''out.json''\<rparr>))
   \<and> json (default_namespace\<lparr>json := True, json_file := Some ''out.json''\<rparr>)
   \<and> printed world0
        (snd (json_dump test_env child_bench
               (default_namespace\<lparr>json := True, json_file := Some ''out.json''\<rparr>) world0)) =
       [JsonDumpInto (FileObj ''out.json'' TextUtf8) child_bench,
        Flush (FileObj ''out.json'' TextUtf8), Close (FileObj ''out.json'' TextUtf8)]
   \<and> \<not> truthy (json_file default_namespace) \<and> \<not> json default_namespace
   \<and> json_dump test_env child_bench default_namespace world0 = (Inr (), world0)"
  using json_dump_destination[of "default_namespace\<lparr>json := True, json_file := Some ''out.json''\<rparr>"
          test_env child_bench world0]
        json_dump_destination[of default_namespace test_env child_bench world0]
  by (simp add: default_namespace_def truthy_def test_env_def Let_def)

section \<open>The stability analysis\<close>

subsection \<open>Statistics and samples\<close>

lemma sort_Nil_iff [simp]: "sort xs = [] \<longleftrightarrow> xs = []"
  by (metis length_sort length_0_conv)

lemma median_defined:
  "xs \<noteq> [] \<Longrightarrow>
     median xs = Inr (if length xs mod 2 = 1 then sort xs ! (length xs div 2)
                      else (sort xs ! (length xs div 2 - 1) + sort xs ! (length xs div 2)) / 2)"
  by (simp add: median_def Let_def)

lemma median_Inr_nonempty: "median xs = Inr m \<Longrightarrow> xs \<noteq> []"
  by (auto simp: median_def Let_def)

lemma stdev_defined:
  "length xs > 1 \<Longrightarrow>
     stdev xs = Inr (sqrt ((\<Sum>x\<leftarrow>xs. (x - mean xs)\<^sup>2) / real (length xs - 1)))"
  by (simp add: stdev_def Let_def)

lemma slice_from_nonempty: "slice_from xs n \<noteq> [] \<Longrightarrow> xs \<noteq> []"
  by (auto simp: slice_from_def)

lemma samples_are_raw:
  assumes "get_samples bench \<noteq> []"
  shows "get_raw_samples bench \<noteq> []" and "get_nrun bench \<noteq> 0"
proof -
  from assms obtain run where "run \<in> set (bench_runs bench)"
      and "slice_from run (bench_warmups bench) \<noteq> []"
    by (auto simp: get_samples_def)
  then have "run \<in> set (bench_runs bench)" "run \<noteq> []"
    using slice_from_nonempty by auto
  then show "get_raw_samples bench \<noteq> []" and "get_nrun bench \<noteq> 0"
    by (auto simp: get_raw_samples_def get_nrun_def)
qed

subsection \<open>The lines of each check\<close>

text \<open>
  With more than one measurement sample and a median other than 0, the dispersion
  check is a three-way choice on the stability ratio.
\<close>

lemma dispersion_check_ratio:
  assumes "bench_median bench = Inr med" "med \<noteq> 0" "length (get_samples bench) > 1"
  shows "dispersion_check E bench verbosity file w =
     (let f = file_or_stdout file; k = stability_ratio bench in
      if k > 0.10 then
        (Inr (), emit [Print f ((if k > 0.20
                   then ''ERROR: the benchmark is very unstable, the standard ''
                               @ ''deviation is very high (stdev/median: ''
                               @ fmt_f0 E (k * 100) @ ''%)!''
                   else ''WARNING: the benchmark seems unstable, the standard ''
                               @ ''deviation is high (stdev/median: ''
                               @ fmt_f0 E (k * 100) @ ''%)'')),
                 Print f (''Try to rerun the benchmark with more runs, samples ''
                               @ ''and/or loops''),
                 Print f []] w)
      else if verbosity > 1 then
        (Inr (), emit [Print f (''Standard deviation / median: ''
                               @ fmt_f0 E (k * 100) @ ''%'')] w)
      else (Inr (), emit [] w))"
  using assms
  by (simp add: dispersion_check_def stability_ratio_def stdev_defined Let_def print_def
        emit_def)

text \<open>
  The dispersion check never raises once the median exists; which line it prints is
  decided by the ratio, and none of its lines can be taken for a line of the check of
  the shortest sample.
\<close>

lemma dispersion_check_lines:
  assumes "bench_median bench = Inr med"
  shows "\<exists>es. dispersion_check E bench verbosity file w = (Inr (), emit es w)
      \<and> \<not> list_ex (is_line ''ERROR: the benchmark may be very unstable'') es
      \<and> \<not> list_ex (is_line ''WARNING: the benchmark may be unstable'') es
      \<and> (med \<noteq> 0 \<and> length (get_samples bench) > 1 \<longrightarrow>
           (list_ex (is_line ''ERROR: the benchmark is very unstable'') es
              \<longleftrightarrow> stability_ratio bench > 0.20)
         \<and> (list_ex (is_line ''WARNING: the benchmark seems unstable'') es
              \<longleftrightarrow> 0.10 < stability_ratio bench \<and> stability_ratio bench \<le> 0.20))
      \<and> (med = 0 \<or> length (get_samples bench) \<le> 1 \<longrightarrow> es = [])"
proof (cases "med \<noteq> 0 \<and> length (get_samples bench) > 1")
  case False
  then have "dispersion_check E bench verbosity file w = (Inr (), emit [] w)"
    using assms by (auto simp: dispersion_check_def emit_def)
  then show ?thesis using False by auto
next
  case True
  note unfold = dispersion_check_ratio[OF assms, of E verbosity "file" w]
  let ?k = "stability_ratio bench"
  consider (err) "?k > 0.20" | (warn) "0.10 < ?k" "?k \<le> 0.20"
    | (echo) "?k \<le> 0.10" "verbosity > 1" | (quiet) "?k \<le> 0.10" "\<not> verbosity > 1"
    by linarith
  then show ?thesis
  proof cases
    case err
    then have "?k > 0.10" by simp
    with err True show ?thesis
      unfolding unfold[OF conjunct1[OF True] conjunct2[OF True]] Let_def
      by (intro exI conjI) (rule refl | simp)+
  next
    case warn
    with True show ?thesis
      unfolding unfold[OF conjunct1[OF True] conjunct2[OF True]] Let_def
      by (intro exI conjI) (rule refl | simp)+
  next
    case echo
    with True show ?thesis
      unfolding unfold[OF conjunct1[OF True] conjunct2[OF True]] Let_def
      by (intro exI conjI) (rule refl | simp)+
  next
    case quiet
    with True show ?thesis
      unfolding unfold[OF conjunct1[OF True] conjunct2[OF True]] Let_def
      by (intro exI conjI) (rule refl | simp)+
  qed
qed

text \<open>The same for the check of the shortest raw sample.\<close>

lemma shortest_check_lines:
  assumes "get_raw_samples bench \<noteq> []"
  shows "\<exists>es. shortest_check E bench verbosity file w = (Inr (), emit es w)
      \<and> \<not> list_ex (is_line ''ERROR: the benchmark is very unstable'') es
      \<and> \<not> list_ex (is_line ''WARNING: the benchmark seems unstable'') es
      \<and> (list_ex (is_line ''ERROR: the benchmark may be very unstable'') es
            \<longleftrightarrow> Min (set (get_raw_samples bench)) < 1 / 10 ^ 6)
      \<and> (list_ex (is_line ''WARNING: the benchmark may be unstable'') es
            \<longleftrightarrow> 1 / 10 ^ 6 \<le> Min (set (get_raw_samples bench))
                \<and> Min (set (get_raw_samples bench)) < 1 / 10 ^ 3)"
proof -
  let ?s = "Min (set (get_raw_samples bench))"
  let ?f = "file_or_stdout file"
  let ?text = "format_sample E bench ?s"
  have unfold: "shortest_check E bench verbosity file w =
     (if ?s < 1 / 10 ^ 3 then
        (Inr (), emit [Print Stdout ((if ?s < 1 / 10 ^ 6
                   then ''ERROR: the benchmark may be very unstable, ''
                         @ ''the shortest raw sample only took '' @ ?text
                   else ''WARNING: the benchmark may be unstable, ''
                         @ ''the shortest raw sample only took '' @ ?text)),
                 Print ?f (''Try to rerun the benchmark with more loops ''
                         @ ''or increase --min-time''),
                 Print ?f []] w)
      else if verbosity > 1 then
        (Inr (), emit [Print ?f (''Shortest raw sample: '' @ ?text), Print ?f []] w)
      else (Inr (), emit [] w))"
    using assms
    by (simp add: shortest_check_def Let_def print_def emit_def)
  consider (err) "?s < 1 / 10 ^ 6" | (warn) "1 / 10 ^ 6 \<le> ?s" "?s < 1 / 10 ^ 3"
    | (echo) "1 / 10 ^ 3 \<le> ?s" "verbosity > 1" | (quiet) "1 / 10 ^ 3 \<le> ?s" "\<not> verbosity > 1"
    by linarith
  then show ?thesis
  proof cases
    case err
    then have "?s < 1 / 10 ^ 3" by simp
    with err show ?thesis
      unfolding unfold by (intro exI conjI) (rule refl | simp)+
  next
    case warn
    then show ?thesis
      unfolding unfold by (intro exI conjI) (rule refl | simp)+
  next
    case echo
    then show ?thesis
      unfolding unfold by (intro exI conjI) (rule refl | simp)+
  next
    case quiet
    then show ?thesis
      unfolding unfold by (intro exI conjI) (rule refl | simp)+
  qed
qed

text \<open>The whole function runs the two checks one after the other.\<close>

lemma warn_if_bench_unstable_lines:
  assumes "bench_median bench = Inr med"
  shows "\<exists>es1 es2.
       dispersion_check E bench verbosity file w = (Inr (), emit es1 w)
     \<and> shortest_check E bench verbosity file (emit es1 w) = (Inr (), emit es2 (emit es1 w))
     \<and> warn_if_bench_unstable E bench verbosity file w = (Inr (), emit es2 (emit es1 w))
     \<and> printed w (snd (warn_if_bench_unstable E bench verbosity file w)) = es1 @ es2
     \<and> \<not> list_ex (is_line ''ERROR: the benchmark may be very unstable'') es1
     \<and> \<not> list_ex (is_line ''WARNING: the benchmark may be unstable'') es1
     \<and> (med \<noteq> 0 \<and> length (get_samples bench) > 1 \<longrightarrow>
           (list_ex (is_line ''ERROR: the benchmark is very unstable'') es1
              \<longleftrightarrow> stability_ratio bench > 0.20)
         \<and> (list_ex (is_line ''WARNING: the benchmark seems unstable'') es1
              \<longleftrightarrow> 0.10 < stability_ratio bench \<and> stability_ratio bench \<le> 0.20))
     \<and> (med = 0 \<or> length (get_samples bench) \<le> 1 \<longrightarrow> es1 = [])
     \<and> \<not> list_ex (is_line ''ERROR: the benchmark is very unstable'') es2
     \<and> \<not> list_ex (is_line ''WARNING: the benchmark seems unstable'') es2
     \<and> (list_ex (is_line ''ERROR: the benchmark may be very unstable'') es2
            \<longleftrightarrow> Min (set (get_raw_samples bench)) < 1 / 10 ^ 6)
     \<and> (list_ex (is_line ''WARNING: the benchmark may be unstable'') es2
            \<longleftrightarrow> 1 / 10 ^ 6 \<le> Min (set (get_raw_samples bench))
                \<and> Min (set (get_raw_samples bench)) < 1 / 10 ^ 3)"
proof -
  from assms have nonempty: "get_samples bench \<noteq> []"
    by (auto simp: bench_median_def dest: median_Inr_nonempty)
  note raw = samples_are_raw[OF nonempty]
  from dispersion_check_lines[OF assms, of E verbosity "file" w]
  obtain es1 where d: "dispersion_check E bench verbosity file w = (Inr (), emit es1 w)"
    and d1: "\<not> list_ex (is_line ''ERROR: the benchmark may be very unstable'') es1"
    and d2: "\<not> list_ex (is_line ''WARNING: the benchmark may be unstable'') es1"
    and d3: "med \<noteq> 0 \<and> length (get_samples bench) > 1 \<longrightarrow>
           (list_ex (is_line ''ERROR: the benchmark is very unstable'') es1
              \<longleftrightarrow> stability_ratio bench > 0.20)
         \<and> (list_ex (is_line ''WARNING: the benchmark seems unstable'') es1
              \<longleftrightarrow> 0.10 < stability_ratio bench \<and> stability_ratio bench \<le> 0.20)"
    and d4: "med = 0 \<or> length (get_samples bench) \<le> 1 \<longrightarrow> es1 = []"
    by blast
  from shortest_check_lines[OF raw(1), of E verbosity "file" "emit es1 w"]
  obtain es2 where s: "shortest_check E bench verbosity file (emit es1 w) =
                         (Inr (), emit es2 (emit es1 w))"
    and s1: "\<not> list_ex (is_line ''ERROR: the benchmark is very unstable'') es2"
    and s2: "\<not> list_ex (is_line ''WARNING: the benchmark seems unstable'') es2"
    and s3: "list_ex (is_line ''ERROR: the benchmark may be very unstable'') es2
            \<longleftrightarrow> Min (set (get_raw_samples bench)) < 1 / 10 ^ 6"
    and s4: "list_ex (is_line ''WARNING: the benchmark may be unstable'') es2
            \<longleftrightarrow> 1 / 10 ^ 6 \<le> Min (set (get_raw_samples bench))
                \<and> Min (set (get_raw_samples bench)) < 1 / 10 ^ 3"
    by blast
  have whole: "warn_if_bench_unstable E bench verbosity file w =
                 (Inr (), emit es2 (emit es1 w))"
    using raw(2) d s by (simp add: warn_if_bench_unstable_def)
  have pr: "printed w (snd (warn_if_bench_unstable E bench verbosity file w)) = es1 @ es2"
    unfolding whole by (simp add: printed_def)
  show ?thesis
    using d s whole pr d1 d2 d3 d4 s1 s2 s3 s4 by blast
qed

subsection \<open>Concrete aggregates\<close>






lemma short_warmup_bench_samples:
  "get_samples short_warmup_bench = [5 / 10 ^ 3, 5 / 10 ^ 3]"
  "get_raw_samples short_warmup_bench = [5 / 10 ^ 7, 5 / 10 ^ 3, 5 / 10 ^ 3]"
  by (simp_all add: short_warmup_bench_def get_samples_def get_raw_samples_def add_run_def
        Benchmark_def slice_from_def)




subsection \<open>The dispersion check\<close>



text \<open>
  The witness covers the example of the specification: the five samples
  0.0009, 0.0011, 0.0010, 0.0050 and 0.0010 s, with one outlier, give Error.
\<close>

subsection \<open>The check of the shortest raw sample\<close>

text \<open>
  C3: for an aggregate with at least one measurement sample, the stability assessment
  returns normally (no exception, so no exit), and the verdict printed by the check of
  the shortest raw sample, warmups included, is Error exactly when the shortest sample
  is below \<open>10\<^sup>-\<^sup>6\<close> s, Warn exactly when it is at least \<open>10\<^sup>-\<^sup>6\<close> s and below
  \<open>10\<^sup>-\<^sup>3\<close> s, and Stable exactly when it is at least \<open>10\<^sup>-\<^sup>3\<close> s.
\<close>

theorem duration_thresholds:
  assumes "get_samples bench \<noteq> []"
  shows "fst (warn_if_bench_unstable E bench verbosity file w) = Inr ()
       \<and> (let shortest = Min (set (get_raw_samples bench));
               v = duration_verdict
                     (printed w (snd (warn_if_bench_unstable E bench verbosity file w)))
           in (v = Error \<longleftrightarrow> shortest < 1 / 10 ^ 6)
            \<and> (v = Warn \<longleftrightarrow> 1 / 10 ^ 6 \<le> shortest \<and> shortest < 1 / 10 ^ 3)
            \<and> (v = Stable \<longleftrightarrow> 1 / 10 ^ 3 \<le> shortest))"
proof -
  from assms obtain med where med: "bench_median bench = Inr med"
    by (simp add: bench_median_def median_defined)
  from warn_if_bench_unstable_lines[OF med, of E verbosity "file" w]
  obtain es1 es2 where
        whole: "warn_if_bench_unstable E bench verbosity file w = (Inr (), emit es2 (emit es1 w))"
    and pr: "printed w (snd (warn_if_bench_unstable E bench verbosity file w)) = es1 @ es2"
    and d1: "\<not> list_ex (is_line ''ERROR: the benchmark may be very unstable'') es1"
    and d2: "\<not> list_ex (is_line ''WARNING: the benchmark may be unstable'') es1"
    and s3: "list_ex (is_line ''ERROR: the benchmark may be very unstable'') es2
            \<longleftrightarrow> Min (set (get_raw_samples bench)) < 1 / 10 ^ 6"
    and s4: "list_ex (is_line ''WARNING: the benchmark may be unstable'') es2
            \<longleftrightarrow> 1 / 10 ^ 6 \<le> Min (set (get_raw_samples bench))
                \<and> Min (set (get_raw_samples bench)) < 1 / 10 ^ 3"
    by blast
  have ok: "fst (warn_if_bench_unstable E bench verbosity file w) = Inr ()"
    unfolding whole by simp
  have verdict: "(let shortest = Min (set (get_raw_samples bench));
               v = duration_verdict
                     (printed w (snd (warn_if_bench_unstable E bench verbosity file w)))
           in (v = Error \<longleftrightarrow> shortest < 1 / 10 ^ 6)
            \<and> (v = Warn \<longleftrightarrow> 1 / 10 ^ 6 \<le> shortest \<and> shortest < 1 / 10 ^ 3)
            \<and> (v = Stable \<longleftrightarrow> 1 / 10 ^ 3 \<le> shortest))"
    unfolding pr Let_def duration_verdict_def
    using d1 d2 s3 s4 by (auto simp: list_ex_iff)
  show ?thesis
    using ok verdict by blast
qed

theorem duration_thresholds_witness:
  "get_samples short_warmup_bench \<noteq> []
   \<and> Min (set (get_raw_samples short_warmup_bench)) = 5 / 10 ^ 7
   \<and> fst (warn_if_bench_unstable test_env short_warmup_bench 0 None world0) = Inr ()
   \<and> duration_verdict
        (printed world0 (snd (warn_if_bench_unstable test_env short_warmup_bench 0 None world0)))
       = Error"
proof -
  have nonempty: "get_samples short_warmup_bench \<noteq> []"
    by (simp add: short_warmup_bench_samples)
  have shortest: "Min (set (get_raw_samples short_warmup_bench)) = 5 / 10 ^ 7"
    by (simp add: short_warmup_bench_samples)
  show ?thesis
    using duration_thresholds[OF nonempty, of test_env 0 None world0] nonempty
    by (simp add: shortest Let_def)
qed

section \<open>CPU affinity\<close>

text \<open>The two cases without an explicit CPU list: nothing to pin to, and isolated CPUs
  that cannot be pinned to, which is a warning.\<close>

lemma cpu_affinity_nothing_to_do:
  assumes "\<not> truthy (affinity A)" "get_isolated_cpus E = None \<or> get_isolated_cpus E = Some []"
  shows "cpu_affinity E A w = (Inr (), A, w)"
  using assms by (auto simp: cpu_affinity_def Let_def)

lemma cpu_affinity_detected_no_mechanism:
  assumes "\<not> truthy (affinity A)" "get_isolated_cpus E = Some cpus" "cpus \<noteq> []"
    "\<not> has_sched_setaffinity E" "\<not> psutil_has_cpu_affinity E"
  shows "cpu_affinity E A w =
           (Inr (), A,
            emit [Print (stream_of A) (''WARNING: unable to pin worker processes to ''
                     @ ''isolated CPUs, CPU affinity not available''),
                  Print (stream_of A)
                    ''Use Python 3.3 or newer, or install psutil dependency''] w)"
  using assms by (simp add: cpu_affinity_def Let_def print_def emit_def)

text \<open>
  With an explicit CPU list and no way to pin, the method prints its error line and then
  reads the unassigned local variable \<^verbatim>\<open>stream\<close>: the \<^verbatim>\<open>sys.exit(1)\<close> that follows is never
  reached, on this path or on any other.
\<close>

lemma cpu_affinity_explicit_no_mechanism:
  assumes "truthy (affinity A)" "\<not> has_sched_setaffinity E" "\<not> psutil_has_cpu_affinity E"
  shows "cpu_affinity E A w =
           (Inl (UnboundLocalError ''stream''), A,
            print Stderr ''ERROR: CPU affinity not available.''
              (if verbose A \<noteq> 0
               then print (stream_of A)
                      (''Pin process to CPUs: ''
                         @ format_cpu_list E (parse_cpu_list E (the (affinity A)))) w
               else w))"
  using assms by (simp add: cpu_affinity_def pin_cpus_def Let_def)

lemma cpu_affinity_never_exits:
  "fst (cpu_affinity E A w) \<noteq> Inl (SystemExit n)"
  by (auto simp: cpu_affinity_def pin_cpus_def Let_def split: option.splits)

text \<open>The same at \<^verbatim>\<open>--affinity=0\<close> on a platform without \<^verbatim>\<open>os.sched_setaffinity\<close> and
  without \<^verbatim>\<open>psutil\<close>.\<close>

lemma cpu_affinity_explicit_unavailable:
  "cpu_affinity test_env (default_namespace\<lparr>affinity := Some ''0''\<rparr>) world0 =
     (Inl (UnboundLocalError ''stream''), default_namespace\<lparr>affinity := Some ''0''\<rparr>,
      world0\<lparr>log := [Print Stderr ''ERROR: CPU affinity not available.'']\<rparr>)"
  by (simp add: cpu_affinity_def pin_cpus_def psutil_has_cpu_affinity_def test_env_def
        default_namespace_def truthy_def world0_def print_def emit_def Let_def)

text \<open>
  The main method calls \<^verbatim>\<open>_cpu_affinity\<close> before its \<^verbatim>\<open>try\<close>: an exception of the affinity
  code leaves the main method as it is.
\<close>

lemma main_affinity_error:
  assumes "parse_args self None = (Inr (), self1)" and "self_args self1 = Some A"
    and "cpu_affinity E A w = (Inl e, A1, w1)"
  shows "main E self f w = (Inl e, self1\<lparr>self_args := Some A1\<rparr>, w1)"
  using assms by (simp add: main_def)

lemma exit_status_uncaught [simp]:
  "exit_status (Inl (UnboundLocalError name)) = 1"
  "exit_status (Inl (SystemExit n)) = n"
  "exit_status (Inr x) = 0"
  by (simp_all add: exit_status_def)

text \<open>
  C7: the three cases of the affinity handling when no pinning mechanism exists or
  nothing is to be pinned. With an explicit CPU list and no mechanism, the method prints
  its error line on standard error and raises; nothing catches the exception, so the
  process ends with status 1 (by the uncaught \<^verbatim>\<open>UnboundLocalError\<close>, before the
  \<^verbatim>\<open>sys.exit(1)\<close> of the source is reached). With isolated CPUs detected and no
  mechanism, the method prints a warning and returns normally, without pinning and
  without changing the arguments. Without an explicit list and without isolated CPUs,
  the method does nothing.
\<close>

theorem affinity_unavailable_cases:
  "(truthy (affinity A) \<and> \<not> has_sched_setaffinity E \<and> \<not> psutil_has_cpu_affinity E \<longrightarrow>
      fst (cpu_affinity E A w) = Inl (UnboundLocalError ''stream'')
    \<and> printed w (snd (snd (cpu_affinity E A w))) =
        (if verbose A \<noteq> 0
         then [Print (stream_of A)
                 (''Pin process to CPUs: ''
                    @ format_cpu_list E (parse_cpu_list E (the (affinity A))))]
         else [])
        @ [Print Stderr ''ERROR: CPU affinity not available.'']
    \<and> (parse_args self None = (Inr (), self1) \<and> self_args self1 = Some A \<longrightarrow>
         fst (main E self f w) = Inl (UnboundLocalError ''stream'')
       \<and> exit_status (fst (main E self f w)) = 1
       \<and> snd (snd (main E self f w)) = snd (snd (cpu_affinity E A w))))
   \<and> (\<not> truthy (affinity A) \<and> get_isolated_cpus E = Some cpus \<and> cpus \<noteq> []
        \<and> \<not> has_sched_setaffinity E \<and> \<not> psutil_has_cpu_affinity E \<longrightarrow>
      cpu_affinity E A w =
        (Inr (), A,
         emit [Print (stream_of A) (''WARNING: unable to pin worker processes to ''
                  @ ''isolated CPUs, CPU affinity not available''),
               Print (stream_of A)
                 ''Use Python 3.3 or newer, or install psutil dependency''] w))
   \<and> (\<not> truthy (affinity A)
        \<and> (get_isolated_cpus E = None \<or> get_isolated_cpus E = Some []) \<longrightarrow>
      cpu_affinity E A w = (Inr (), A, w))"
proof (intro conjI impI)
  assume a: "truthy (affinity A) \<and> \<not> has_sched_setaffinity E \<and> \<not> psutil_has_cpu_affinity E"
  note r = cpu_affinity_explicit_no_mechanism[of A E w, OF conjunct1[OF a]
             conjunct1[OF conjunct2[OF a]] conjunct2[OF conjunct2[OF a]]]
  show "fst (cpu_affinity E A w) = Inl (UnboundLocalError ''stream'')"
    by (simp add: r)
  show "printed w (snd (snd (cpu_affinity E A w))) =
        (if verbose A \<noteq> 0
         then [Print (stream_of A)
                 (''Pin process to CPUs: ''
                    @ format_cpu_list E (parse_cpu_list E (the (affinity A))))]
         else [])
        @ [Print Stderr ''ERROR: CPU affinity not available.'']"
    by (simp add: r printed_def)
  {
    assume p: "parse_args self None = (Inr (), self1) \<and> self_args self1 = Some A"
    note m = main_affinity_error[OF conjunct1[OF p] conjunct2[OF p] r, of f]
    show "fst (main E self f w) = Inl (UnboundLocalError ''stream'')"
      by (simp add: m)
    show "exit_status (fst (main E self f w)) = 1"
      by (simp add: m)
    show "snd (snd (main E self f w)) = snd (snd (cpu_affinity E A w))"
      by (simp add: m r)
  }
next
  assume "\<not> truthy (affinity A) \<and> get_isolated_cpus E = Some cpus \<and> cpus \<noteq> []
        \<and> \<not> has_sched_setaffinity E \<and> \<not> psutil_has_cpu_affinity E"
  then show "cpu_affinity E A w =
        (Inr (), A,
         emit [Print (stream_of A) (''WARNING: unable to pin worker processes to ''
                  @ ''isolated CPUs, CPU affinity not available''),
               Print (stream_of A)
                 ''Use Python 3.3 or newer, or install psutil dependency''] w)"
    by (simp add: cpu_affinity_detected_no_mechanism)
next
  assume "\<not> truthy (affinity A)
        \<and> (get_isolated_cpus E = None \<or> get_isolated_cpus E = Some [])"
  then show "cpu_affinity E A w = (Inr (), A, w)"
    by (simp add: cpu_affinity_nothing_to_do)
qed

theorem affinity_unavailable_cases_witness:
  "truthy (affinity affinity_namespace)
   \<and> \<not> has_sched_setaffinity test_env \<and> \<not> psutil_has_cpu_affinity test_env
   \<and> parse_args affinity_runner None =
       (Inr (), affinity_runner\<lparr>self_args := Some affinity_namespace\<rparr>)
   \<and> fst (main test_env affinity_runner (linear_op (1 / 10000)) world0)
       = Inl (UnboundLocalError ''stream'')
   \<and> exit_status (fst (main test_env affinity_runner (linear_op (1 / 10000)) world0)) = 1
   \<and> printed world0 (snd (snd (cpu_affinity test_env affinity_namespace world0)))
       = [Print Stderr ''ERROR: CPU affinity not available.'']
   \<and> \<not> truthy (affinity default_namespace)
   \<and> get_isolated_cpus isolated_env = Some [2, 3]
   \<and> \<not> has_sched_setaffinity isolated_env \<and> \<not> psutil_has_cpu_affinity isolated_env
   \<and> cpu_affinity isolated_env default_namespace world0 =
       (Inr (), default_namespace,
        emit [Print Stdout (''WARNING: unable to pin worker processes to ''
                 @ ''isolated CPUs, CPU affinity not available''),
              Print Stdout ''Use Python 3.3 or newer, or install psutil dependency''] world0)
   \<and> get_isolated_cpus test_env = None
   \<and> cpu_affinity test_env default_namespace world0 = (Inr (), default_namespace, world0)"
proof -
  have explicit: "truthy (affinity affinity_namespace)"
    by (simp add: affinity_namespace_def truthy_def)
  have none: "\<not> has_sched_setaffinity test_env" "\<not> psutil_has_cpu_affinity test_env"
    "get_isolated_cpus test_env = None"
    by (simp_all add: test_env_def psutil_has_cpu_affinity_def)
  have parsed: "parse_args affinity_runner None =
                  (Inr (), affinity_runner\<lparr>self_args := Some affinity_namespace\<rparr>)"
    by (simp add: parse_args_def affinity_runner_def test_runner_def)
  have stored: "self_args (affinity_runner\<lparr>self_args := Some affinity_namespace\<rparr>)
                  = Some affinity_namespace"
    by simp
  have quiet: "verbose affinity_namespace = 0"
    by (simp add: affinity_namespace_def default_namespace_def)
  have auto_detect: "\<not> truthy (affinity default_namespace)"
    by (simp add: default_namespace_def truthy_def)
  have isolated: "get_isolated_cpus isolated_env = Some [2, 3]"
    "\<not> has_sched_setaffinity isolated_env" "\<not> psutil_has_cpu_affinity isolated_env"
    by (simp_all add: isolated_env_def test_env_def psutil_has_cpu_affinity_def)
  have out: "stream_of default_namespace = Stdout"
    by (simp add: stream_of_def default_namespace_def)
  note fatal = affinity_unavailable_cases[where A = affinity_namespace and E = test_env
      and w = world0 and self = affinity_runner
      and ?self1.0 = "affinity_runner\<lparr>self_args := Some affinity_namespace\<rparr>"
      and f = "linear_op (1 / 10000)"]
  note warned = affinity_unavailable_cases[where A = default_namespace and E = isolated_env
      and w = world0 and cpus = "[2, 3]"]
  note silent = affinity_unavailable_cases[where A = default_namespace and E = test_env
      and w = world0]
  from fatal explicit none parsed stored
  have a1: "fst (main test_env affinity_runner (linear_op (1 / 10000)) world0)
              = Inl (UnboundLocalError ''stream'')"
    and a2: "exit_status (fst (main test_env affinity_runner (linear_op (1 / 10000)) world0)) = 1"
    and a3: "printed world0 (snd (snd (cpu_affinity test_env affinity_namespace world0)))
       = (if verbose affinity_namespace \<noteq> 0
         then [Print (stream_of affinity_namespace)
                 (''Pin process to CPUs: ''
                    @ format_cpu_list test_env
                        (parse_cpu_list test_env (the (affinity affinity_namespace))))]
         else [])
        @ [Print Stderr ''ERROR: CPU affinity not available.'']"
    by blast+
  from a3 have a3': "printed world0 (snd (snd (cpu_affinity test_env affinity_namespace world0)))
       = [Print Stderr ''ERROR: CPU affinity not available.'']"
    by (simp add: quiet)
  from warned auto_detect isolated
  have b: "cpu_affinity isolated_env default_namespace world0 =
       (Inr (), default_namespace,
        emit [Print (stream_of default_namespace)
                (''WARNING: unable to pin worker processes to ''
                 @ ''isolated CPUs, CPU affinity not available''),
              Print (stream_of default_namespace)
                ''Use Python 3.3 or newer, or install psutil dependency''] world0)"
    by blast
  from silent auto_detect none(3)
  have c: "cpu_affinity test_env default_namespace world0 = (Inr (), default_namespace, world0)"
    by blast
  show ?thesis
    using explicit none parsed a1 a2 a3' auto_detect isolated b[unfolded out] c by blast
qed

section \<open>The sample-collection worker\<close>

subsection \<open>Rounding to the nanosecond\<close>

lemma round_half_even_near: "\<bar>of_int (round_half_even y) - y\<bar> \<le> 1 / 2"
  unfolding round_half_even_def Let_def by (auto; linarith)

lemma round_half_away_near: "\<bar>of_int (round_half_away y) - y\<bar> \<le> 1 / 2"
proof (cases "0 \<le> y")
  case True
  have "of_int \<lfloor>y + 1 / 2\<rfloor> \<le> y + 1 / 2" "y + 1 / 2 < of_int \<lfloor>y + 1 / 2\<rfloor> + 1"
    by linarith+
  moreover have "round_half_away y = \<lfloor>y + 1 / 2\<rfloor>"
    using True by (simp add: round_half_away_def)
  ultimately show ?thesis
    by linarith
next
  case False
  have "y - 1 / 2 \<le> of_int \<lceil>y - 1 / 2\<rceil>" "of_int \<lceil>y - 1 / 2\<rceil> < y - 1 / 2 + 1"
    by linarith+
  moreover have "round_half_away y = \<lceil>y - 1 / 2\<rceil>"
    using False by (simp add: round_half_away_def)
  ultimately show ?thesis
    by linarith
qed

lemma round9_grid:
  "\<exists>m::int. round9 E d = of_int m / 10 ^ 9 \<and> \<bar>round9 E d - d\<bar> \<le> 1 / (2 * 10 ^ 9)"
proof -
  define m where "m = (if PY3 E then round_half_even else round_half_away) (d * 10 ^ 9)"
  have near: "\<bar>of_int m - d * 10 ^ 9\<bar> \<le> 1 / 2"
    using round_half_even_near[of "d * 10 ^ 9"] round_half_away_near[of "d * 10 ^ 9"]
    by (simp add: m_def)
  have "round9 E d - d = (of_int m - d * 10 ^ 9) / 10 ^ 9"
    by (simp add: round9_def m_def field_simps)
  moreover have "\<bar>x / 10 ^ 9\<bar> = \<bar>x\<bar> / 10 ^ 9" for x :: real
    by simp
  ultimately have "\<bar>round9 E d - d\<bar> = \<bar>of_int m - d * 10 ^ 9\<bar> / 10 ^ 9"
    by (simp only:)
  also have "\<dots> \<le> (1 / 2) / 10 ^ 9"
    using near by (simp add: divide_right_mono)
  finally have "\<bar>round9 E d - d\<bar> \<le> 1 / (2 * 10 ^ 9)"
    by simp
  moreover have "round9 E d = of_int m / 10 ^ 9"
    by (simp add: round9_def m_def)
  ultimately show ?thesis by blast
qed

subsection \<open>The loop\<close>

lemma length_run_timed: "length (fst (run_timed f n m s)) = m"
proof (induction m arbitrary: s)
  case 0
  then show ?case by simp
next
  case (Suc m)
  obtain d s1 where call: "f n s = (d, s1)"
    by (cases "f n s")
  obtain ds s2 where rest: "run_timed f n m s1 = (ds, s2)"
    by (cases "run_timed f n m s1")
  from Suc.IH[of s1] rest have "length ds = m"
    by simp
  then show ?case
    by (simp add: call rest)
qed

lemma worker_loop_run_timed:
  "worker_loop E A bench f xs run w = (run', w') \<Longrightarrow>
     run' = run @ map (round9 E) (fst (run_timed f (bench_loops bench) (length xs) (timer w)))
   \<and> timer w' = snd (run_timed f (bench_loops bench) (length xs) (timer w))
   \<and> nspawn w' = nspawn w"
proof (induction xs arbitrary: run w)
  case Nil
  then show ?case by simp
next
  case (Cons x xs)
  obtain is_warmup index where x: "x = (is_warmup, index)" by (cases x)
  obtain d t where call: "f (bench_loops bench) (timer w) = (d, t)"
    by (cases "f (bench_loops bench) (timer w)")
  obtain ds t' where rest: "run_timed f (bench_loops bench) (length xs) t = (ds, t')"
    by (cases "run_timed f (bench_loops bench) (length xs) t")
  from Cons.prems show ?case
    unfolding x
    by (auto simp: call rest Let_def print_def emit_def dest!: Cons.IH split: if_splits)
qed

subsection \<open>The report of a worker\<close>

lemma display_summary_only:
  "display_benchmark E bench verbosity file False show_metadata False w =
     (Inr (),
      print (file_or_stdout file) (''Median +- std dev: '' @ bench_format E bench verbosity)
        (if show_metadata
         then print (file_or_stdout file) []
                (display_metadata (bench_metadata bench) file ''Metadata:'' w)
         else w))"
  by (simp add: display_benchmark_def Let_def)

lemma timer_display_metadata [simp]: "timer (display_metadata md file header w) = timer w"
  by (simp add: display_metadata_def)

lemma timer_json_dump [simp]: "timer (snd (json_dump E bench A w)) = timer w"
  by (simp add: json_dump_def Let_def)

lemma json_dump_ok:
  "(truthy (json_file A) \<longrightarrow> can_open E (the (json_file A))) \<Longrightarrow>
     fst (json_dump E bench A w) = Inr ()"
  by (simp add: json_dump_def Let_def)

lemma display_result_unchecked:
  "timer (snd (display_result E A bench False w)) = timer w"
  "(truthy (json_file A) \<longrightarrow> can_open E (the (json_file A))) \<Longrightarrow>
     fst (display_result E A bench False w) = Inr ()"
  by (simp_all add: display_result_def display_summary_only Let_def json_dump_ok)

text \<open>
  C4: the worker calls the timed operation \<open>warmups + samples\<close> times, one call after
  the other, each with the loop count of the aggregate; the run it appends to the
  aggregate is the list of the returned durations in the order of the calls (warmups
  first), each rounded to a multiple of \<open>10\<^sup>-\<^sup>9\<close> s at most half a nanosecond away; so
  the run has length \<open>warmups + samples\<close>. The worker returns normally unless the JSON
  file cannot be opened.
\<close>

theorem worker_collects_run:
  fixes E :: env and A :: namespace and bench :: benchmark and f :: "'s sample_func"
    and w :: "'s world"
  defines "n \<equiv> nat (warmups A) + nat (samples A)"
  defines "timed \<equiv> run_timed f (bench_loops bench) n (timer w)"
  defines "result \<equiv> worker E A bench f w"
  shows "fst (snd result) = add_run bench (map (round9 E) (fst timed))
       \<and> length (last (bench_runs (fst (snd result)))) = n
       \<and> timer (snd (snd result)) = snd timed
       \<and> ((truthy (json_file A) \<longrightarrow> can_open E (the (json_file A))) \<longrightarrow>
            fst result = Inr ())
       \<and> (0 \<le> warmups A \<and> 0 \<le> samples A \<longrightarrow>
            int (length (last (bench_runs (fst (snd result))))) = warmups A + samples A)
       \<and> list_all (\<lambda>d. \<exists>m::int. round9 E d = of_int m / 10 ^ 9
                          \<and> \<bar>round9 E d - d\<bar> \<le> 1 / (2 * 10 ^ 9)) (fst timed)"
proof -
  obtain run w1 where loop: "worker_loop E A bench f (range_of A) [] w = (run, w1)"
    by (cases "worker_loop E A bench f (range_of A) [] w")
  have len: "length (range_of A) = n"
    by (simp add: range_of_def n_def)
  from worker_loop_run_timed[OF loop]
  have run: "run = map (round9 E) (fst timed)" and tm: "timer w1 = snd timed"
    by (simp_all add: len timed_def)
  have res: "result = (fst (display_result E A (add_run bench run) False w1),
                       add_run bench run,
                       snd (display_result E A (add_run bench run) False w1))"
    by (simp add: result_def worker_def loop Let_def split: prod.splits)
  have lrun: "length run = n"
    by (simp add: run timed_def length_run_timed)
  have grid: "list_all (\<lambda>d. \<exists>m::int. round9 E d = of_int m / 10 ^ 9
                          \<and> \<bar>round9 E d - d\<bar> \<le> 1 / (2 * 10 ^ 9)) (fst timed)"
    unfolding list_all_iff using round9_grid by blast
  have int_n: "0 \<le> warmups A \<and> 0 \<le> samples A \<longrightarrow> int n = warmups A + samples A"
    by (simp add: n_def)
  show ?thesis
    using grid int_n
    by (simp add: res run[symmetric] add_run_def lrun tm display_result_unchecked)
qed

theorem worker_collects_run_witness:
  "\<not> truthy (json_file default_namespace)
   \<and> 0 \<le> warmups default_namespace \<and> 0 \<le> samples default_namespace
   \<and> fst (worker test_env default_namespace (Benchmark None 1 1000 None [])
            (linear_op (1 / 10000)) world0) = Inr ()
   \<and> bench_runs (fst (snd (worker test_env default_namespace (Benchmark None 1 1000 None [])
            (linear_op (1 / 10000)) world0))) = [[1 / 10, 1 / 10, 1 / 10, 1 / 10]]
   \<and> timer (snd (snd (worker test_env default_namespace (Benchmark None 1 1000 None [])
            (linear_op (1 / 10000)) world0))) = [1000, 1000, 1000, 1000]"
proof -
  have n: "nat (warmups default_namespace) + nat (samples default_namespace) = Suc (Suc (Suc (Suc 0)))"
    by (simp add: default_namespace_def)
  have timed: "run_timed (linear_op (1 / 10000)) (bench_loops (Benchmark None 1 1000 None []))
                 (Suc (Suc (Suc (Suc 0)))) (timer world0) =
               ([1 / 10, 1 / 10, 1 / 10, 1 / 10], [1000, 1000, 1000, 1000])"
    by (simp add: linear_op_def Benchmark_def world0_def)
  have r9: "round9 test_env (1 / 10) = 1 / 10"
    by (simp add: round9_def test_env_def round_half_even_def)
  have pre: "\<not> truthy (json_file default_namespace)"
    by (simp add: default_namespace_def truthy_def)
  have nonneg: "0 \<le> warmups default_namespace \<and> 0 \<le> samples default_namespace"
    by (simp add: default_namespace_def)
  show ?thesis
    using worker_collects_run[of test_env default_namespace "Benchmark None 1 1000 None []"
            "linear_op (1 / 10000)" world0] pre nonneg
    unfolding n timed
    by (simp add: r9 add_run_def Benchmark_def)
qed

section \<open>Spawning the workers\<close>

subsection \<open>One child\<close>

lemma spawn_worker_command:
  "spawn_worker E self A w = bench_from_subprocess E (final_command self A) w"
  by (simp add: spawn_worker_def final_command_def Let_def split: option.splits)

lemma bench_from_subprocess_Inr:
  assumes "bench_from_subprocess E cmd w = (Inr run_bench, w1)"
  shows "\<exists>out err. child E (nspawn w) cmd = Exited 0 out err \<and> json_load E out = Inr run_bench"
    and "w1 = emit [Popen cmd] (w\<lparr>nspawn := Suc (nspawn w)\<rparr>)"
  using assms
  by (auto simp: bench_from_subprocess_def Let_def
           split: list.splits child_outcome.splits if_splits)

lemma bench_from_subprocess_nonzero:
  assumes "child E (nspawn w) (program # rest) = Exited returncode out err" "returncode \<noteq> 0"
  shows "bench_from_subprocess E (program # rest) w =
           (Inl (RuntimeError (program @ '' failed with exit code '' @ str_int returncode)),
            emit [Popen (program # rest), Write Stdout out, Flush (StreamObj Stdout),
                  Write Stderr err, Flush (StreamObj Stderr)]
              (w\<lparr>nspawn := Suc (nspawn w)\<rparr>))"
  using assms by (simp add: bench_from_subprocess_def Let_def emit_def)

subsection \<open>The loop over the processes\<close>

lemma spawn_loop_append:
  "spawn_loop E self A (xs @ ys) bench w =
     (case spawn_loop E self A xs bench w of
        (Inl e, bench1, w1) \<Rightarrow> (Inl e, bench1, w1)
      | (Inr _, bench1, w1) \<Rightarrow> spawn_loop E self A ys bench1 w1)"
  by (induction xs arbitrary: bench w) (auto simp: Let_def split: prod.splits sum.splits)

lemma nspawn_display_run [simp]:
  "nspawn (display_run E bench index nrun run file w) = nspawn w"
  "timer (display_run E bench index nrun run file w) = timer w"
  by (simp_all add: display_run_def Let_def)

lemma spawn_loop_step_Inr:
  assumes "spawn_loop E self A (process # rest) bench w = (Inr (), bench', w')"
  shows "\<exists>run w2. delivered E (final_command self A) (nspawn w) bench run
           \<and> nspawn w2 = Suc (nspawn w) \<and> timer w2 = timer w
           \<and> spawn_loop E self A rest (add_run bench run) w2 = (Inr (), bench', w')"
proof -
  obtain r w1 where sw: "spawn_worker E self A w = (r, w1)"
    by (cases "spawn_worker E self A w")
  with assms obtain run_bench where r: "r = Inr run_bench"
    by (cases r) auto
  from sw r have bfs: "bench_from_subprocess E (final_command self A) w = (Inr run_bench, w1)"
    by (simp add: spawn_worker_command)
  note child = bench_from_subprocess_Inr[OF bfs]
  from assms sw r obtain run where run: "get_worker_samples E bench run_bench = Inr run"
    by (cases "get_worker_samples E bench run_bench") auto
  have d: "delivered E (final_command self A) (nspawn w) bench run"
    using child(1) run by (auto simp: delivered_def)
  let ?w2 = "(if verbose A > 1
              then display_run E (add_run bench run) (1 + int process) (processes A) run
                     (Some (stream_of A)) w1
              else emit [Write (stream_of A) ''.'', Flush (StreamObj (stream_of A))] w1)"
  have "spawn_loop E self A rest (add_run bench run) ?w2 = (Inr (), bench', w')"
    using assms sw r run by (simp add: Let_def)
  moreover have "nspawn ?w2 = Suc (nspawn w)" "timer ?w2 = timer w"
    using child(2) by simp_all
  ultimately show ?thesis
    using d by blast
qed

text \<open>
  A loop that returned normally has appended one run per process, in the order of the
  processes, each delivered by the child started at that position; it has started
  exactly that many children and has not touched the rest of the aggregate.
\<close>

lemma spawn_loop_Inr:
  assumes "spawn_loop E self A procs bench w = (Inr (), bench', w')"
  shows "bench' = bench\<lparr>bench_runs := bench_runs bench'\<rparr>
       \<and> length (bench_runs bench') = length (bench_runs bench) + length procs
       \<and> take (length (bench_runs bench)) (bench_runs bench') = bench_runs bench
       \<and> nspawn w' = nspawn w + length procs
       \<and> timer w' = timer w
       \<and> (\<forall>i<length procs.
             delivered E (final_command self A) (nspawn w + i)
               (bench\<lparr>bench_runs := take (length (bench_runs bench) + i) (bench_runs bench')\<rparr>)
               (bench_runs bench' ! (length (bench_runs bench) + i)))"
  using assms
proof (induction procs arbitrary: bench w)
  case Nil
  then show ?case by simp
next
  case (Cons process rest)
  from spawn_loop_step_Inr[OF Cons.prems]
  obtain run w2 where d: "delivered E (final_command self A) (nspawn w) bench run"
    and n2: "nspawn w2 = Suc (nspawn w)" and t2: "timer w2 = timer w"
    and rest: "spawn_loop E self A rest (add_run bench run) w2 = (Inr (), bench', w')"
    by blast
  let ?k = "length (bench_runs bench)"
  note IH = Cons.IH[OF rest]
  from IH have same: "bench' = (add_run bench run)\<lparr>bench_runs := bench_runs bench'\<rparr>"
    and len: "length (bench_runs bench') = Suc ?k + length rest"
    and pre: "take (Suc ?k) (bench_runs bench') = bench_runs bench @ [run]"
    and ns: "nspawn w' = Suc (nspawn w) + length rest"
    and tm: "timer w' = timer w"
    and del: "\<forall>i<length rest.
             delivered E (final_command self A) (Suc (nspawn w) + i)
               ((add_run bench run)\<lparr>bench_runs := take (Suc ?k + i) (bench_runs bench')\<rparr>)
               (bench_runs bench' ! (Suc ?k + i))"
    by (simp_all add: add_run_def n2 t2)
  have pre0: "take ?k (bench_runs bench') = bench_runs bench"
  proof -
    have "take ?k (take (Suc ?k) (bench_runs bench')) = take ?k (bench_runs bench @ [run])"
      by (simp only: pre)
    then show ?thesis by simp
  qed
  have at_k: "bench_runs bench' ! ?k = run"
  proof -
    have "take (Suc ?k) (bench_runs bench') ! ?k = (bench_runs bench @ [run]) ! ?k"
      by (simp only: pre)
    then show ?thesis by simp
  qed
  have same0: "bench' = bench\<lparr>bench_runs := bench_runs bench'\<rparr>"
    using same by (simp add: add_run_def)
  have del0: "delivered E (final_command self A) (nspawn w + i)
               (bench\<lparr>bench_runs := take (?k + i) (bench_runs bench')\<rparr>)
               (bench_runs bench' ! (?k + i))" if "i < length (process # rest)" for i
  proof (cases i)
    case 0
    then show ?thesis using d pre0 at_k by simp
  next
    case (Suc j)
    with that have "j < length rest" by simp
    with del have "delivered E (final_command self A) (Suc (nspawn w) + j)
               ((add_run bench run)\<lparr>bench_runs := take (Suc ?k + j) (bench_runs bench')\<rparr>)
               (bench_runs bench' ! (Suc ?k + j))"
      by blast
    then show ?thesis using Suc by (simp add: add_run_def)
  qed
  show ?case
    using same0 len pre0 ns tm del0 by simp
qed

subsection \<open>What the reports leave untouched\<close>

lemma dispersion_check_quiet [simp]:
  "nspawn (snd (dispersion_check E bench verbosity file w)) = nspawn w"
  "timer (snd (dispersion_check E bench verbosity file w)) = timer w"
  by (simp_all add: dispersion_check_def Let_def split: sum.splits)

lemma shortest_check_quiet [simp]:
  "nspawn (snd (shortest_check E bench verbosity file w)) = nspawn w"
  "timer (snd (shortest_check E bench verbosity file w)) = timer w"
  by (simp_all add: shortest_check_def Let_def)

lemma warn_if_bench_unstable_quiet [simp]:
  "nspawn (snd (warn_if_bench_unstable E bench verbosity file w)) = nspawn w"
  "timer (snd (warn_if_bench_unstable E bench verbosity file w)) = timer w"
proof -
  obtain r w1 where d: "dispersion_check E bench verbosity file w = (r, w1)"
    by (cases "dispersion_check E bench verbosity file w")
  have "nspawn w1 = nspawn w" "timer w1 = timer w"
    using dispersion_check_quiet[of E bench verbosity "file" w] by (simp_all add: d)
  then have "nspawn (snd (warn_if_bench_unstable E bench verbosity file w)) = nspawn w
      \<and> timer (snd (warn_if_bench_unstable E bench verbosity file w)) = timer w"
    by (cases r) (simp_all add: warn_if_bench_unstable_def d)
  then show "nspawn (snd (warn_if_bench_unstable E bench verbosity file w)) = nspawn w"
    and "timer (snd (warn_if_bench_unstable E bench verbosity file w)) = timer w"
    by blast+
qed

lemma nspawn_display_metadata [simp]:
  "nspawn (display_metadata md file header w) = nspawn w"
  by (simp add: display_metadata_def)

lemma nspawn_json_dump [simp]: "nspawn (snd (json_dump E bench A w)) = nspawn w"
  by (simp add: json_dump_def Let_def)

lemma display_benchmark_quiet [simp]:
  "nspawn (snd (display_benchmark E bench verbosity file check_unstable show_metadata False w))
     = nspawn w"
  "timer (snd (display_benchmark E bench verbosity file check_unstable show_metadata False w))
     = timer w"
  by (simp_all add: display_benchmark_def Let_def split_beta sum.case_eq_if)

lemma display_result_quiet [simp]:
  "nspawn (snd (display_result E A bench check_unstable w)) = nspawn w"
  "timer (snd (display_result E A bench check_unstable w)) = timer w"
  by (simp_all add: display_result_def Let_def split_beta sum.case_eq_if)

lemma calibrate_from_unfold:
  assumes "f (10 ^ index) (timer w) = (dt, t)"
  shows "calibrate_from E A f index w =
     (let w2 = (if verbose A > 1
                then print (stream_of A)
                       (''calibration: '' @ format_number E (10 ^ index) ''loop'' @ '': ''
                          @ format_timedelta E dt) (w\<lparr>timer := t\<rparr>)
                else w\<lparr>timer := t\<rparr>)
      in if dt \<ge> max_time A then (10 ^ nat (max (int index - 1) 0), w2)
         else if dt \<ge> min_time A * 0.90 then (10 ^ index, w2)
         else if index + 1 < 10 then calibrate_from E A f (index + 1) w2
         else (10 ^ index, w2))"
  by (subst calibrate_from.simps) (simp add: assms Let_def)

lemma calibrate_from_nspawn:
  "nspawn (snd (calibrate_from E A f index w)) = nspawn w"
proof (induction n \<equiv> "10 - index" arbitrary: index w)
  case 0
  obtain dt t where call: "f (10 ^ index) (timer w) = (dt, t)"
    by (cases "f (10 ^ index) (timer w)")
  from 0 have last: "\<not> index + 1 < 10"
    by simp
  show ?case
    using last
    by (simp add: calibrate_from_unfold[where f=f and index=index and w=w, OF call] Let_def)
next
  case (Suc n)
  obtain dt t where call: "f (10 ^ index) (timer w) = (dt, t)"
    by (cases "f (10 ^ index) (timer w)")
  from Suc.hyps(2) have n: "n = 10 - Suc index"
    by simp
  note IH = Suc.hyps(1)[OF n]
  show ?case
    by (simp add: calibrate_from_unfold[where f=f and index=index and w=w, OF call] Let_def IH)
qed

lemma calibrate_sample_func_nspawn [simp]:
  "nspawn (snd (calibrate_sample_func E A f w)) = nspawn w"
proof -
  obtain n w1 where c: "calibrate_from E A f 0 w = (n, w1)"
    by (cases "calibrate_from E A f 0 w")
  have "nspawn w1 = nspawn w"
    using calibrate_from_nspawn[of E A f 0 w] by (simp add: c)
  then show ?thesis
    by (simp add: calibrate_sample_func_def c Let_def)
qed

lemma pin_cpus_nspawn [simp]: "nspawn (snd (pin_cpus E cpus stream w)) = nspawn w"
  by (simp add: pin_cpus_def Let_def split: option.splits)

lemma cpu_affinity_nspawn [simp]: "nspawn (snd (snd (cpu_affinity E A w))) = nspawn w"
  by (simp add: cpu_affinity_def Let_def split_beta split: option.splits)

subsection \<open>The orchestrator\<close>

lemma spawn_workers_Inr:
  assumes "spawn_workers E self A bench start_time w = (Inr (), bench', w')"
  shows "\<exists>bench1 w1. spawn_loop E self A [0..<nat (processes A)] bench w = (Inr (), bench1, w1)
           \<and> bench_runs bench' = bench_runs bench1
           \<and> bench_loops bench' = bench_loops bench1
           \<and> nspawn w' = nspawn w1 \<and> timer w' = timer w1"
proof -
  obtain r bench1 w1 where loop: "spawn_loop E self A [0..<nat (processes A)] bench w
                                    = (r, bench1, w1)"
    by (metis prod_cases3)
  with assms have r: "r = Inr ()"
    by (cases r) (auto simp: spawn_workers_def)
  define w2 where "w2 = (if verbose A \<le> 1 then print (stream_of A) [] w1 else w1)"
  define b2 where "b2 = bench1\<lparr>bench_metadata :=
               AList.update ''duration''
                 (duration_text E (monotonic_clock E (log w2) - start_time))
                 (bench_metadata bench1)\<rparr>"
  have res: "spawn_workers E self A bench start_time w =
               (fst (display_result E A b2 True w2), b2, snd (display_result E A b2 True w2))"
    by (simp add: spawn_workers_def loop r Let_def w2_def b2_def split: prod.splits)
  from assms have e1: "b2 = bench'" and e2: "snd (display_result E A b2 True w2) = w'"
    unfolding res prod.inject by blast+
  note e1[symmetric] e2[symmetric]
  moreover have "nspawn w2 = nspawn w1" "timer w2 = timer w1"
    by (simp_all add: w2_def)
  ultimately have "bench_runs bench' = bench_runs bench1"
    "bench_loops bench' = bench_loops bench1" "nspawn w' = nspawn w1" "timer w' = timer w1"
    by (simp_all add: b2_def)
  then show ?thesis
    using loop r by blast
qed

text \<open>The main method, once the arguments are parsed and the affinity is set.\<close>

lemma main_unfold:
  fixes E :: env and self self1 :: runner and f :: "'s sample_func" and w w1 :: "'s world"
    and A1 :: namespace
  assumes "parse_args self None = (Inr (), self1)"
    and "cpu_affinity E (the (self_args self1)) w = (Inr (), A1, w1)"
    and A2_def: "A2 = (if loops A1 = 0
                  then A1\<lparr>loops := fst (calibrate_sample_func E A1 f w1)\<rparr> else A1)"
    and w2_def: "w2 = (if loops A1 = 0 then snd (calibrate_sample_func E A1 f w1) else w1)"
    and self2_def: "self2 = self1\<lparr>self_args := Some A2\<rparr>"
    and bench0_def: "bench0 = Benchmark (self_name self1) (warmups A2) (loops A2)
                       (self_inner_loops self1) (self_metadata self1)"
    and bench1_def: "bench1 = (if \<not> raw A2 \<or> metadata A2
                      then bench0\<lparr>bench_metadata :=
                             collect_metadata E (bench_metadata bench0)\<rparr>
                      else bench0)"
    and inner_def: "inner = (if \<not> raw A2
                     then spawn_workers E self2 A2 bench1 (monotonic_clock E (log w)) w2
                     else worker E A2 bench1 f w2)"
  shows "main E self f w =
     (case fst inner of
        Inl e \<Rightarrow>
          (if e = KeyboardInterrupt
           then (Inl (SystemExit 1), self2, print Stderr ''Interrupted: exit'' (snd (snd inner)))
           else (Inl e, self2, snd (snd inner)))
      | Inr _ \<Rightarrow> (Inr (fst (snd inner)), self2, snd (snd inner)))"
proof -
  obtain r b w3 where i: "inner = (r, b, w3)"
    by (metis prod_cases3)
  obtain n wc where cal: "calibrate_sample_func E A1 f w1 = (n, wc)"
    by (cases "calibrate_sample_func E A1 f w1")
  have pair: "(if loops A1 = 0
               then (case calibrate_sample_func E A1 f w1 of
                       (n, w2) \<Rightarrow> (A1\<lparr>loops := n\<rparr>, w2))
               else (A1, w1)) = (A2, w2)"
    by (simp add: A2_def w2_def cal)
  have "main E self f w =
     (case inner of
        (Inl KeyboardInterrupt, _, w3) \<Rightarrow>
          (Inl (SystemExit 1), self2, print Stderr ''Interrupted: exit'' w3)
      | (Inl e, _, w3) \<Rightarrow> (Inl e, self2, w3)
      | (Inr _, bench1, w3) \<Rightarrow> (Inr bench1, self2, w3))"
    unfolding inner_def bench1_def bench0_def self2_def
    by (simp add: main_def assms(1,2) pair Let_def)
  then show ?thesis
    unfolding i by (cases r) (simp_all split: exn.splits)
qed


lemma worker_command_loops:
  "sublist [''--loops'', str_int (loops A)] (worker_command self A)"
  unfolding sublist_def worker_command_def
  by (rule exI[of _ "self_program_args self
                      @ [''--raw'', ''--json'', ''--samples'', str_int (samples A),
                         ''--warmups'', str_int (warmups A)]"],
      rule exI[of _ "(if verbose A \<noteq> 0 then [''-'' @ replicate (nat (verbose A)) CHR ''v''] else [])
                     @ (if truthy (affinity A) then [''--affinity='' @ the (affinity A)] else [])"])
     simp

subsection \<open>A concrete run with two processes\<close>

lemma display_result_ok:
  assumes "get_samples bench \<noteq> []" and "\<not> truthy (json_file A)"
  shows "fst (display_result E A bench check_unstable w) = Inr ()"
proof -
  from assms(1) obtain med where med: "bench_median bench = Inr med"
    by (simp add: bench_median_def median_defined)
  have ok: "fst (warn_if_bench_unstable E bench v f w') = Inr ()" for v f and w' :: "'a world"
    using warn_if_bench_unstable_lines[OF med, of E v f w'] by auto
  have "fst (display_benchmark E bench v f check_unstable m False w') = Inr ()"
    for v f m and w' :: "'a world"
    by (simp add: display_benchmark_def Let_def split_beta ok)
  then show ?thesis
    using assms(2) by (simp add: display_result_def Let_def split_beta json_dump_ok)
qed

lemma test_env_spawn_loop:
  assumes "final_command self A \<noteq> []"
  shows "fst (spawn_loop test_env self A procs bench w) = Inr ()
       \<and> fst (snd (spawn_loop test_env self A procs bench w)) =
           bench\<lparr>bench_runs := bench_runs bench @ replicate (length procs) [2 / 10, 1 / 10]\<rparr>"
proof (induction procs arbitrary: bench w)
  case Nil
  then show ?case by simp
next
  case (Cons process rest)
  have sw: "spawn_worker test_env self A w =
              (Inr child_bench, emit [Popen (final_command self A)] (w\<lparr>nspawn := Suc (nspawn w)\<rparr>))"
    using assms
    by (cases "final_command self A")
       (simp_all add: spawn_worker_command bench_from_subprocess_def test_env_def Let_def)
  have gs: "get_worker_samples test_env bench child_bench = Inr [2 / 10, 1 / 10]"
    by (simp add: test_env_def child_bench_def add_run_def Benchmark_def)
  show ?case
    by (simp add: sw gs Let_def Cons.IH add_run_def replicate_append_same)
qed


lemma two_process_calibrated:
  "fst (calibrate_sample_func test_env two_process_namespace (linear_op (1 / 10000)) world0)
     = 1000"
  by (simp add: calibrate_value calibrate_from_step two_process_namespace_def
        default_namespace_def Let_def)

lemma two_process_main:
  fixes M
  defines "M \<equiv> main test_env two_process_runner (linear_op (1 / 10000)) world0"
  shows "M = (Inr (projr (fst M)), fst (snd M), snd (snd M))"
    and "self_args (fst (snd M)) = Some (two_process_namespace\<lparr>loops := 1000\<rparr>)"
proof -
  let ?A0 = "two_process_namespace"
  let ?self1 = "two_process_runner\<lparr>self_args := Some ?A0\<rparr>"
  have p: "parse_args two_process_runner None = (Inr (), ?self1)"
    by (simp add: parse_args_def two_process_runner_def test_runner_def)
  have c: "cpu_affinity test_env (the (self_args ?self1)) world0 = (Inr (), ?A0, world0)"
    by (simp add: cpu_affinity_nothing_to_do two_process_namespace_def default_namespace_def
          truthy_def test_env_def)
  define A2 where "A2 = (if loops ?A0 = 0
      then ?A0\<lparr>loops := fst (calibrate_sample_func test_env ?A0 (linear_op (1 / 10000)) world0)\<rparr>
      else ?A0)"
  define w2 where "w2 = (if loops ?A0 = 0
      then snd (calibrate_sample_func test_env ?A0 (linear_op (1 / 10000)) world0) else world0)"
  define self2 where "self2 = ?self1\<lparr>self_args := Some A2\<rparr>"
  define bench0 where "bench0 = Benchmark (self_name ?self1) (warmups A2) (loops A2)
                       (self_inner_loops ?self1) (self_metadata ?self1)"
  define bench1 where "bench1 = (if \<not> raw A2 \<or> metadata A2
                      then bench0\<lparr>bench_metadata :=
                             collect_metadata test_env (bench_metadata bench0)\<rparr>
                      else bench0)"
  define inner where "inner = (if \<not> raw A2
       then spawn_workers test_env self2 A2 bench1 (monotonic_clock test_env (log world0)) w2
       else worker test_env A2 bench1 (linear_op (1 / 10000)) w2)"
  note mu = main_unfold[OF p c A2_def w2_def self2_def bench0_def bench1_def inner_def]
  have A2: "A2 = ?A0\<lparr>loops := 1000\<rparr>"
    by (simp add: A2_def two_process_calibrated)
       (simp add: two_process_namespace_def default_namespace_def)
  have raw: "\<not> raw A2" "\<not> truthy (json_file A2)" "warmups A2 = 1" "processes A2 = 2"
    by (simp_all add: A2 two_process_namespace_def default_namespace_def truthy_def)
  have cmd: "final_command self2 A2 \<noteq> []"
    by (simp add: final_command_def self2_def two_process_runner_def test_runner_def
          worker_command_def)
  have b1: "bench_runs bench1 = []" "bench_warmups bench1 = 1"
    by (simp_all add: bench1_def bench0_def Benchmark_def raw)
  obtain r bl wl where L: "spawn_loop test_env self2 A2 [0..<nat (processes A2)] bench1 w2
                             = (r, bl, wl)"
    by (metis prod_cases3)
  note loop = test_env_spawn_loop[OF cmd, of "[0..<nat (processes A2)]" bench1 w2, unfolded L]
  from loop have r: "r = Inr ()"
    and bl: "bl = bench1\<lparr>bench_runs := [[2 / 10, 1 / 10], [2 / 10, 1 / 10]]\<rparr>"
    by (simp_all add: L raw b1 numeral_2_eq_2)
  have samples: "get_samples (bl\<lparr>bench_metadata := md\<rparr>) \<noteq> []" for md
    by (simp add: bl get_samples_def b1 slice_from_def)
  have inner_ok: "fst inner = Inr ()"
    using raw(1)
    by (simp add: inner_def spawn_workers_def L r Let_def split_beta
          display_result_ok[OF samples raw(2)])
  show "M = (Inr (projr (fst M)), fst (snd M), snd (snd M))"
    unfolding M_def mu by (simp add: inner_ok)
  show "self_args (fst (snd M)) = Some (two_process_namespace\<lparr>loops := 1000\<rparr>)"
    unfolding M_def mu by (simp add: inner_ok self2_def A2)
qed

subsection \<open>The aggregate of a successful run\<close>

text \<open>
  C5: when the main method returns an aggregate in spawning mode (\<^verbatim>\<open>--raw\<close> not given)
  with \<open>processes = P\<close>, the aggregate has exactly \<open>P\<close> runs; exactly \<open>P\<close> children were
  started; the run at position \<open>i\<close> was delivered by the child started at position \<open>i\<close>,
  to the aggregate holding the runs before it; the loop count of the aggregate is the
  \<^verbatim>\<open>loops\<close> argument as resolved before the loop (given or calibrated), and every child
  was started with the same command line, which carries \<^verbatim>\<open>--loops\<close> with that value
  unless a callback edits it.
\<close>

theorem main_spawning_runs:
  assumes "main E self f w = (Inr bench', self', w')"
    and "self_args self' = Some A'" and "\<not> raw A'"
  shows "length (bench_runs bench') = nat (processes A')
       \<and> bench_loops bench' = loops A'
       \<and> nspawn w' = nspawn w + nat (processes A')
       \<and> (\<forall>i<nat (processes A').
             delivered E (final_command self' A') (nspawn w + i)
               ((Benchmark (self_name self') (warmups A') (loops A') (self_inner_loops self')
                   (collect_metadata E (self_metadata self')))
                  \<lparr>bench_runs := take i (bench_runs bench')\<rparr>)
               (bench_runs bench' ! i))
       \<and> (self_prepare_subprocess_args self' = None \<longrightarrow>
             sublist [''--loops'', str_int (loops A')] (final_command self' A'))"
proof -
  obtain r0 self1 where p: "parse_args self None = (r0, self1)"
    by (cases "parse_args self None")
  have r0: "r0 = Inr ()"
    using assms(1) by (cases r0) (simp_all add: main_def p)
  obtain r1 A1 w1 where c: "cpu_affinity E (the (self_args self1)) w = (r1, A1, w1)"
    by (metis prod_cases3)
  have r1: "r1 = Inr ()"
    using assms(1) by (cases r1) (simp_all add: main_def p r0 c)
  define A2 where "A2 = (if loops A1 = 0
                  then A1\<lparr>loops := fst (calibrate_sample_func E A1 f w1)\<rparr> else A1)"
  define w2 where "w2 = (if loops A1 = 0 then snd (calibrate_sample_func E A1 f w1) else w1)"
  define self2 where "self2 = self1\<lparr>self_args := Some A2\<rparr>"
  define bench0 where "bench0 = Benchmark (self_name self1) (warmups A2) (loops A2)
                       (self_inner_loops self1) (self_metadata self1)"
  define bench1 where "bench1 = (if \<not> raw A2 \<or> metadata A2
                      then bench0\<lparr>bench_metadata :=
                             collect_metadata E (bench_metadata bench0)\<rparr>
                      else bench0)"
  define inner where "inner = (if \<not> raw A2
                     then spawn_workers E self2 A2 bench1 (monotonic_clock E (log w)) w2
                     else worker E A2 bench1 f w2)"
  note mu = main_unfold[OF p[unfolded r0] c[unfolded r1] A2_def w2_def self2_def bench0_def
              bench1_def inner_def]
  obtain ri bi wi where i: "inner = (ri, bi, wi)"
    by (metis prod_cases3)
  have ri: "ri = Inr ()"
    using assms(1) unfolding mu i by (cases ri) (simp_all split: if_splits)
  from assms(1) have res: "bench' = bi" "self' = self2" "w' = wi"
    unfolding mu i ri by simp_all
  have A': "A' = A2"
    using assms(2) by (simp add: res self2_def)
  with assms(3) have spawning: "\<not> raw A2"
    by simp
  then have sw: "spawn_workers E self2 A2 bench1 (monotonic_clock E (log w)) w2
                   = (Inr (), bench', w')"
    using i by (simp add: inner_def ri res)
  have b1: "bench1 = (Benchmark (self_name self') (warmups A') (loops A') (self_inner_loops self')
                   (collect_metadata E (self_metadata self')))"
    using spawning by (simp add: bench1_def bench0_def Benchmark_def res self2_def A')
  from spawn_workers_Inr[OF sw]
  obtain bl wl where loop: "spawn_loop E self2 A2 [0..<nat (processes A2)] bench1 w2
                              = (Inr (), bl, wl)"
    and runs: "bench_runs bench' = bench_runs bl"
    and lps: "bench_loops bench' = bench_loops bl"
    and ns: "nspawn w' = nspawn wl"
    by blast
  note L = spawn_loop_Inr[OF loop]
  have n1: "nspawn w1 = nspawn w"
    using cpu_affinity_nspawn[of E "the (self_args self1)" w] by (simp add: c)
  have n2: "nspawn w2 = nspawn w"
    by (simp add: w2_def n1)
  have empty: "bench_runs bench1 = []"
    by (simp add: b1 Benchmark_def)
  have len: "length (bench_runs bench') = nat (processes A')"
    using L by (simp add: runs empty A')
  have lp: "bench_loops bench' = loops A'"
  proof -
    from L have "bl = bench1\<lparr>bench_runs := bench_runs bl\<rparr>"
      by blast
    then have "bench_loops bl = bench_loops bench1"
      by (metis benchmark.select_convs(3) benchmark.surjective benchmark.update_convs(6))
    then show ?thesis
      by (simp add: lps b1 Benchmark_def)
  qed
  have nsp: "nspawn w' = nspawn w + nat (processes A')"
    using L by (simp add: ns n2 A')
  have del: "\<forall>i<nat (processes A').
             delivered E (final_command self' A') (nspawn w + i)
               ((Benchmark (self_name self') (warmups A') (loops A') (self_inner_loops self')
                   (collect_metadata E (self_metadata self')))
                  \<lparr>bench_runs := take i (bench_runs bench')\<rparr>)
               (bench_runs bench' ! i)"
    unfolding A' res(2)
    using L by (simp add: runs n2 b1[unfolded A' res(2)] Benchmark_def)
  have cmd: "self_prepare_subprocess_args self' = None \<longrightarrow>
             sublist [''--loops'', str_int (loops A')] (final_command self' A')"
    by (simp add: final_command_def worker_command_loops)
  show ?thesis
    using len lp nsp del cmd by blast
qed

theorem main_spawning_runs_witness:
  "\<not> isl (fst (main test_env two_process_runner (linear_op (1 / 10000)) world0))
   \<and> self_args (fst (snd (main test_env two_process_runner (linear_op (1 / 10000)) world0)))
       = Some (two_process_namespace\<lparr>loops := 1000\<rparr>)
   \<and> \<not> raw (two_process_namespace\<lparr>loops := 1000\<rparr>)
   \<and> length (bench_runs
         (projr (fst (main test_env two_process_runner (linear_op (1 / 10000)) world0)))) = 2
   \<and> bench_loops
         (projr (fst (main test_env two_process_runner (linear_op (1 / 10000)) world0))) = 1000
   \<and> nspawn (snd (snd (main test_env two_process_runner (linear_op (1 / 10000)) world0))) = 2"
proof -
  let ?M = "main test_env two_process_runner (linear_op (1 / 10000)) world0"
  note M = two_process_main
  have nr: "\<not> raw (two_process_namespace\<lparr>loops := 1000\<rparr>)"
    by (simp add: two_process_namespace_def default_namespace_def)
  have isr: "\<not> isl (fst ?M)"
    by (subst M(1)) simp
  note T = main_spawning_runs[OF M(1) M(2) nr]
  have two: "nat (processes two_process_namespace) = 2"
    by (simp add: two_process_namespace_def)
  have n0: "nspawn world0 = 0"
    by (simp add: world0_def)
  show ?thesis
    using T isr M(2) nr by (simp add: two n0)
qed

section \<open>A worker that fails\<close>

subsection \<open>Nothing is serialised inside the loop\<close>

lemma bench_from_subprocess_log:
  "\<exists>es. log (snd (bench_from_subprocess E cmd w)) = log w @ es \<and> filter is_json_dump es = []"
proof (cases cmd)
  case Nil
  then show ?thesis
    by (simp add: bench_from_subprocess_def)
next
  case (Cons program rest)
  show ?thesis
  proof (cases "child E (nspawn w) cmd")
    case Interrupted
    then have "log (snd (bench_from_subprocess E cmd w)) = log w @ [Popen cmd, Kill, Wait]"
      by (simp add: bench_from_subprocess_def Cons Let_def)
    then show ?thesis by simp
  next
    case (Exited returncode out err)
    show ?thesis
    proof (cases "returncode = 0")
      case True
      with Exited have "log (snd (bench_from_subprocess E cmd w)) = log w @ [Popen cmd]"
        by (simp add: bench_from_subprocess_def Cons Let_def)
      then show ?thesis by simp
    next
      case False
      with Exited have "log (snd (bench_from_subprocess E cmd w)) =
          log w @ [Popen cmd, Write Stdout out, Flush (StreamObj Stdout),
                   Write Stderr err, Flush (StreamObj Stderr)]"
        by (simp add: bench_from_subprocess_def Cons Let_def)
      then show ?thesis by simp
    qed
  qed
qed

lemma log_display_run:
  "\<exists>line. log (display_run E bench index nrun run file w)
            = log w @ [Print (file_or_stdout file) line]"
  by (simp add: display_run_def Let_def)

lemma spawn_loop_no_dump:
  "\<exists>es. log (snd (snd (spawn_loop E self A procs bench w))) = log w @ es
        \<and> filter is_json_dump es = []"
proof (induction procs arbitrary: bench w)
  case Nil
  then show ?case by simp
next
  case (Cons process rest)
  obtain r w1 where sw: "spawn_worker E self A w = (r, w1)"
    by (cases "spawn_worker E self A w")
  from bench_from_subprocess_log[of E "final_command self A" w]
  obtain es1 where l1: "log w1 = log w @ es1" and d1: "filter is_json_dump es1 = []"
    by (auto simp: spawn_worker_command[symmetric] sw)
  show ?case
  proof (cases r)
    case (Inl e)
    then show ?thesis
      using l1 d1 by (simp add: sw)
  next
    case (Inr run_bench)
    show ?thesis
    proof (cases "get_worker_samples E bench run_bench")
      case (Inl e)
      then show ?thesis
        using l1 d1 by (simp add: sw Inr)
    next
      case run: (Inr run)
      define w2 where "w2 = (if verbose A > 1
              then display_run E (add_run bench run) (1 + int process) (processes A) run
                     (Some (stream_of A)) w1
              else emit [Write (stream_of A) ''.'', Flush (StreamObj (stream_of A))] w1)"
      have "\<exists>es2. log w2 = log w1 @ es2 \<and> filter is_json_dump es2 = []"
      proof (cases "verbose A > 1")
        case True
        from log_display_run[of E "add_run bench run" "1 + int process" "processes A" run
               "Some (stream_of A)" w1]
        obtain line where "log w2 = log w1 @ [Print (file_or_stdout (Some (stream_of A))) line]"
          by (auto simp: w2_def True)
        then show ?thesis by simp
      next
        case False
        then have "log w2 = log w1 @ [Write (stream_of A) ''.'', Flush (StreamObj (stream_of A))]"
          by (simp add: w2_def)
        then show ?thesis by simp
      qed
      then obtain es2 where l2: "log w2 = log w1 @ es2" and d2: "filter is_json_dump es2 = []"
        by blast
      from Cons.IH[of "add_run bench run" w2]
      obtain es3 where l3: "log (snd (snd (spawn_loop E self A rest (add_run bench run) w2)))
                              = log w2 @ es3"
        and d3: "filter is_json_dump es3 = []"
        by blast
      have step: "spawn_loop E self A (process # rest) bench w =
                    spawn_loop E self A rest (add_run bench run) w2"
        by (simp add: sw Inr run Let_def w2_def)
      have "log (snd (snd (spawn_loop E self A (process # rest) bench w)))
              = log w @ (es1 @ es2 @ es3)"
        unfolding step l3 l2 l1 by simp
      moreover have "filter is_json_dump (es1 @ es2 @ es3) = []"
        using d1 d2 d3 by simp
      ultimately show ?thesis
        by blast
    qed
  qed
qed

subsection \<open>The error leaves the main method as it is\<close>

text \<open>The main method catches \<^verbatim>\<open>KeyboardInterrupt\<close> only: the error of a failed worker
  is its own outcome.\<close>

lemma main_reraises:
  fixes E :: env and self self1 :: runner and f :: "'s sample_func" and w w1 :: "'s world"
    and A1 :: namespace
  assumes "parse_args self None = (Inr (), self1)"
    and "cpu_affinity E (the (self_args self1)) w = (Inr (), A1, w1)"
    and "A2 = (if loops A1 = 0
                  then A1\<lparr>loops := fst (calibrate_sample_func E A1 f w1)\<rparr> else A1)"
    and "w2 = (if loops A1 = 0 then snd (calibrate_sample_func E A1 f w1) else w1)"
    and "self2 = self1\<lparr>self_args := Some A2\<rparr>"
    and "bench0 = Benchmark (self_name self1) (warmups A2) (loops A2)
                       (self_inner_loops self1) (self_metadata self1)"
    and "bench1 = (if \<not> raw A2 \<or> metadata A2
                      then bench0\<lparr>bench_metadata :=
                             collect_metadata E (bench_metadata bench0)\<rparr>
                      else bench0)"
    and "\<not> raw A2"
    and "fst (spawn_workers E self2 A2 bench1 (monotonic_clock E (log w)) w2)
           = Inl (RuntimeError msg)"
  shows "fst (main E self f w) = Inl (RuntimeError msg)"
proof -
  define inner where "inner = (if \<not> raw A2
                     then spawn_workers E self2 A2 bench1 (monotonic_clock E (log w)) w2
                     else worker E A2 bench1 f w2)"
  have "fst inner = Inl (RuntimeError msg)"
    using assms(8,9) by (simp add: inner_def)
  then show ?thesis
    unfolding main_unfold[OF assms(1-7) inner_def] by simp
qed

subsection \<open>The orchestration aborts\<close>

text \<open>
  C6: when the first \<open>j\<close> workers have delivered their runs and the next child exits
  with a status other than 0, \<^verbatim>\<open>_spawn_workers\<close> writes the child's captured standard
  output to its standard output and the child's standard error to its standard error,
  and raises \<^verbatim>\<open>RuntimeError\<close> with the first word of the command and the exit status; the
  aggregate at that moment holds the runs of the first \<open>j\<close> workers and no other, no
  further child is started, nothing has been serialised, and no aggregate is returned.
\<close>

theorem spawn_failure_aborts:
  assumes "j < nat (processes A)"
    and "spawn_loop E self A [0..<j] bench w = (Inr (), bench_j, w_j)"
    and "final_command self A = program # rest"
    and "child E (nspawn w_j) (program # rest) = Exited returncode out err"
    and "returncode \<noteq> 0"
  shows "spawn_workers E self A bench start_time w =
           (Inl (RuntimeError (program @ '' failed with exit code '' @ str_int returncode)),
            bench_j,
            emit [Popen (program # rest), Write Stdout out, Flush (StreamObj Stdout),
                  Write Stderr err, Flush (StreamObj Stderr)]
              (w_j\<lparr>nspawn := Suc (nspawn w_j)\<rparr>))
       \<and> length (bench_runs bench_j) = length (bench_runs bench) + j
       \<and> take (length (bench_runs bench)) (bench_runs bench_j) = bench_runs bench
       \<and> nspawn (snd (snd (spawn_workers E self A bench start_time w))) = nspawn w + j + 1
       \<and> filter is_json_dump
            (printed w (snd (snd (spawn_workers E self A bench start_time w)))) = []"
proof -
  let ?err = "RuntimeError (program @ '' failed with exit code '' @ str_int returncode)"
  let ?w = "emit [Popen (program # rest), Write Stdout out, Flush (StreamObj Stdout),
                  Write Stderr err, Flush (StreamObj Stderr)]
              (w_j\<lparr>nspawn := Suc (nspawn w_j)\<rparr>)"
  have "[0..<nat (processes A)] = [0..<j] @ [j..<nat (processes A)]"
    using assms(1) upt_add_eq_append[of 0 j "nat (processes A) - j"] by simp
  moreover have "[j..<nat (processes A)] = j # [Suc j..<nat (processes A)]"
    using assms(1) by (simp add: upt_conv_Cons)
  ultimately have split: "[0..<nat (processes A)] = [0..<j] @ j # [Suc j..<nat (processes A)]"
    by simp
  have sw: "spawn_worker E self A w_j = (Inl ?err, ?w)"
    unfolding spawn_worker_command assms(3)
    by (rule bench_from_subprocess_nonzero[OF assms(4,5)])
  have step: "spawn_loop E self A (j # [Suc j..<nat (processes A)]) bench_j w_j
                = (Inl ?err, bench_j, ?w)"
    by (simp add: sw)
  have loop: "spawn_loop E self A [0..<nat (processes A)] bench w = (Inl ?err, bench_j, ?w)"
    unfolding split spawn_loop_append assms(2) using step by simp
  have res: "spawn_workers E self A bench start_time w = (Inl ?err, bench_j, ?w)"
    by (simp add: spawn_workers_def loop)
  note L = spawn_loop_Inr[OF assms(2)]
  from spawn_loop_no_dump[of E self A "[0..<j]" bench w]
  obtain es where l: "log w_j = log w @ es" and d: "filter is_json_dump es = []"
    by (auto simp: assms(2))
  have pr: "printed w ?w = es @ [Popen (program # rest), Write Stdout out,
              Flush (StreamObj Stdout), Write Stderr err, Flush (StreamObj Stderr)]"
    by (simp add: printed_def l emit_def)
  have nd: "filter is_json_dump (printed w ?w) = []"
    by (simp add: pr d)
  have n: "nspawn ?w = nspawn w + j + 1"
    using L by simp
  from L have len: "length (bench_runs bench_j) = length (bench_runs bench) + j"
    and pre: "take (length (bench_runs bench)) (bench_runs bench_j) = bench_runs bench"
    by simp_all
  show ?thesis
    unfolding res fst_conv snd_conv using len pre n nd by blast
qed

theorem spawn_failure_aborts_witness:
  "1 < nat (processes two_process_namespace)
   \<and> child failing_env 1 (final_command test_runner two_process_namespace)
       = Exited 2 ''out'' ''err''
   \<and> fst (spawn_workers failing_env test_runner two_process_namespace
            (Benchmark None 1 1000 None []) 0 world0)
       = Inl (RuntimeError ''python failed with exit code 2'')
   \<and> bench_runs (fst (snd (spawn_workers failing_env test_runner two_process_namespace
            (Benchmark None 1 1000 None []) 0 world0))) = [[2 / 10, 1 / 10]]
   \<and> nspawn (snd (snd (spawn_workers failing_env test_runner two_process_namespace
            (Benchmark None 1 1000 None []) 0 world0))) = 2
   \<and> filter is_json_dump
        (printed world0 (snd (snd (spawn_workers failing_env test_runner two_process_namespace
            (Benchmark None 1 1000 None []) 0 world0)))) = []"
proof -
  let ?A = "two_process_namespace"
  let ?B = "Benchmark None 1 1000 None []"
  define rest where "rest = tl (final_command test_runner ?A)"
  have fc: "final_command test_runner ?A = ''python'' # rest"
    by (simp add: rest_def final_command_def test_runner_def worker_command_def)
  have j: "1 < nat (processes ?A)"
    by (simp add: two_process_namespace_def)
  have quiet: "\<not> verbose ?A > 1"
    by (simp add: two_process_namespace_def default_namespace_def)
  have sw: "spawn_worker failing_env test_runner ?A world0 =
              (Inr child_bench, emit [Popen (''python'' # rest)] (world0\<lparr>nspawn := Suc 0\<rparr>))"
    by (simp add: spawn_worker_command fc bench_from_subprocess_def failing_env_def test_env_def
          Let_def world0_def)
  have gs: "get_worker_samples failing_env ?B child_bench = Inr [2 / 10, 1 / 10]"
    by (simp add: failing_env_def test_env_def child_bench_def add_run_def Benchmark_def)
  define w_j where "w_j = emit [Write (stream_of ?A) ''.'', Flush (StreamObj (stream_of ?A))]
                     (emit [Popen (''python'' # rest)] (world0\<lparr>nspawn := Suc 0\<rparr>))"
  have loop: "spawn_loop failing_env test_runner ?A [0..<1] ?B world0
                = (Inr (), add_run ?B [2 / 10, 1 / 10], w_j)"
    using quiet by (simp add: sw gs Let_def w_j_def)
  have nj: "nspawn w_j = 1"
    by (simp add: w_j_def)
  have ch: "child failing_env (nspawn w_j) (''python'' # rest) = Exited 2 ''out'' ''err''"
    unfolding nj by (simp add: failing_env_def)
  have rc: "(2::int) \<noteq> 0"
    by simp
  note T = spawn_failure_aborts[OF j loop fc ch rc, of 0]
  have s2: "str_int 2 = ''2''"
    by (simp add: str_int_def str_nat.simps)
  have n0: "nspawn world0 = 0"
    by (simp add: world0_def)
  have ch1: "child failing_env 1 (final_command test_runner ?A) = Exited 2 ''out'' ''err''"
    by (simp add: failing_env_def)
  let ?R = "spawn_workers failing_env test_runner ?A ?B 0 world0"
  from T have res: "?R = (Inl (RuntimeError (''python'' @ '' failed with exit code '' @ str_int 2)),
                          add_run ?B [2 / 10, 1 / 10],
                          emit [Popen (''python'' # rest), Write Stdout ''out'',
                                Flush (StreamObj Stdout), Write Stderr ''err'',
                                Flush (StreamObj Stderr)]
                            (w_j\<lparr>nspawn := Suc (nspawn w_j)\<rparr>))"
    and started: "nspawn (snd (snd ?R)) = nspawn world0 + 1 + 1"
    and nodump: "filter is_json_dump (printed world0 (snd (snd ?R))) = []"
    by blast+
  have c1: "fst ?R = Inl (RuntimeError ''python failed with exit code 2'')"
    unfolding res by (simp add: s2)
  have c2: "bench_runs (fst (snd ?R)) = [[2 / 10, 1 / 10]]"
    unfolding res by (simp add: add_run_def Benchmark_def)
  have c3: "nspawn (snd (snd ?R)) = 2"
    using started by (simp add: n0)
  show ?thesis
    using j ch1 c1 c2 c3 nodump by blast
qed

end
